theory Spec2Isabelle
  imports Main
begin

section \<open>Strings and numbers of the host language\<close>

text \<open>
  A string of the program is a \<^typ>\<open>string\<close>: every \<^typ>\<open>char\<close> stands for one
  code unit below 256.  Numbers of the program that are integers are \<^typ>\<open>int\<close>;
  the one place where a number can be \<open>NaN\<close> (a missing start time) is an
  \<^typ>\<open>int option\<close> with \<open>None\<close> for \<open>NaN\<close>.
\<close>

definition is_digit :: "char \<Rightarrow> bool" where
  "is_digit c = (c \<in> set ''0123456789'')"

definition digit_char :: "nat \<Rightarrow> char" where
  "digit_char n = ''0123456789'' ! (n mod 10)"

text \<open>\<open>String(n)\<close> for a natural number: its decimal digits, no leading zero.\<close>

fun digits :: "nat \<Rightarrow> string" where
  "digits n = (if n < 10 then [digit_char n] else digits (n div 10) @ [digit_char n])"

declare digits.simps [simp del]

text \<open>
  \<open>String(n)\<close> (the template literal over \<open>n\<close>) for an integer of a magnitude below
  \<open>10^21\<close>, from where the language prints an exponent.
\<close>

definition String_of :: "int \<Rightarrow> string" where
  "String_of n = (if n < 0 then CHR ''-'' # digits (nat (- n)) else digits (nat n))"

text \<open>
  \<open>x | 0\<close> on an integer: the value is taken modulo \<open>2^32\<close> into the signed
  32-bit range.
\<close>

definition ToInt32 :: "int \<Rightarrow> int" where
  "ToInt32 n = (let m = n mod 4294967296 in if 2147483648 \<le> m then m - 4294967296 else m)"

text \<open>The integer part of \<open>a / b\<close>, rounded towards zero as \<open>| 0\<close> does.\<close>

definition trunc_div :: "int \<Rightarrow> int \<Rightarrow> int" where
  "trunc_div a b = (if 0 \<le> a then a div b else - ((- a) div b))"

text \<open>\<open>Math.round(a / 1000)\<close> on an integer \<open>a\<close>: halves go up.\<close>

definition round_div1000 :: "int \<Rightarrow> int" where
  "round_div1000 a = (a + 500) div 1000"

text \<open>\<open>s.split(c)\<close> with a one-character separator: never an empty list.\<close>

fun split_on :: "char \<Rightarrow> string \<Rightarrow> string list" where
  "split_on c [] = [[]]"
| "split_on c (x # xs) =
     (if x = c then [] # split_on c xs
      else (case split_on c xs of
              [] \<Rightarrow> [[x]]
            | p # ps \<Rightarrow> (x # p) # ps))"

text \<open>\<open>parts.join(sep)\<close>.\<close>

fun join :: "string \<Rightarrow> string list \<Rightarrow> string" where
  "join sep [] = []"
| "join sep [p] = p"
| "join sep (p # q # ps) = p @ sep @ join sep (q # ps)"

section \<open>Colours\<close>

text \<open>
  The chalk styles the module names.  A style is kept as a symbol; the escape sequence
  it wraps around a string belongs to the colour library.
\<close>

datatype style = Magenta | Red | Yellow | Cyan | Green | Blue | White | Gray | Grey
  | MagentaBright | RedBright | GreenBright | YellowBright | BlueBright | CyanBright
  | WhiteBright | BgBlueBold

definition colorCodes :: "(int \<times> string) list" where
  "colorCodes =
     [(0, ''yellow''), (1, ''green''), (7, ''magenta''), (2, ''green''),
      (3, ''cyan''), (4, ''yellow''), (5, ''red'')]"

definition chalkColorsMap :: "(string \<times> style) list" where
  "chalkColorsMap =
     [(''magenta'', Magenta), (''red'', Red), (''yellow'', Yellow), (''cyan'', Cyan),
      (''green'', Green), (''blue'', Blue), (''white'', White), (''gray'', Gray),
      (''grey'', Grey), (''magentaBright'', MagentaBright), (''redBright'', RedBright),
      (''greenBright'', GreenBright), (''yellowBright'', YellowBright),
      (''blueBright'', BlueBright), (''cyanBright'', CyanBright),
      (''whiteBright'', WhiteBright)]"

section \<open>Elapsed time\<close>

text \<open>
  \<open>humanize\<close> is only called with its defaults (delimiter \<open>,\<close> and separator \<open>.\<close>).
  The global replace with \<open>regexes.number\<close>, \<open>/(\d)(?=(\d\d\d)+(?!\d))/g\<close>, rewrites
  a digit to itself and a comma wherever the digits that follow it up to the first
  non-digit come in a positive number of groups of three; every match is one
  character long, so the scan resumes at the next character.
\<close>

fun number_replace :: "string \<Rightarrow> string" where
  "number_replace [] = []"
| "number_replace (c # cs) =
     (if is_digit c \<and> 0 < length (takeWhile is_digit cs)
         \<and> length (takeWhile is_digit cs) mod 3 = 0
      then c # CHR '','' # number_replace cs
      else c # number_replace cs)"

definition humanize :: "string \<Rightarrow> string" where
  "humanize n =
     (case split_on CHR ''.'' n of
        [] \<Rightarrow> []
      | p # ps \<Rightarrow> join ''.'' (number_replace p # ps))"

text \<open>\<open>getColorForTime\<close>, with the three entries of \<open>timeColorMap\<close>; \<open>NaN\<close> compares false.\<close>

definition getColorForTime :: "int option \<Rightarrow> style" where
  "getColorForTime t =
     (case t of
        None \<Rightarrow> Red
      | Some d \<Rightarrow> if d < 50 then Green else if d < 100 then Magenta else Red)"

text \<open>
  \<open>time(start)\<close> at the clock reading \<open>now\<close> (the value of \<open>Date.now()\<close>); the result
  is the pair of the fields \<open>time\<close> and \<open>delta\<close>.  The code computes on doubles and
  the model on integers.  The two agree when \<open>now\<close> and \<open>start\<close> are integers of a
  magnitude below \<open>2^53\<close>: the difference is exact, the quotient by 1000 is a double
  closer than a thousandth to the exact quotient, so that \<open>Math.round\<close> gives the
  whole number of \<open>round_div1000\<close>, and the number prints in decimal digits (the
  language prints an exponent from \<open>10^21\<close> on).  The properties of \<open>time\<close> below are
  stated for that range.
\<close>

definition time :: "int \<Rightarrow> int option \<Rightarrow> string \<times> int option" where
  "time now start =
     (let delta = map_option (\<lambda>s. now - s) start;
          t = humanize
                (case delta of
                   None \<Rightarrow> ''NaNs''
                 | Some d \<Rightarrow>
                     if d < 10000 then String_of d @ ''ms''
                     else String_of (round_div1000 d) @ ''s'')
      in (t, delta))"

section \<open>Requests, responses and errors\<close>

text \<open>
  What the module reads of the objects the framework hands it.  A header of the
  response is a number or a string, as \<open>setHeader\<close> stored it; a status of \<open>0\<close> is
  the falsy status.  The error is any value or \<open>null\<close>: \<open>None\<close> is a falsy error, and
  of a truthy one only its \<open>status\<close> property is read (\<open>None\<close> when it has none).
\<close>

datatype hval = HNum int | HStr string

record response =
  statusCode :: int
  res_headers :: "string \<rightharpoonup> hval"

record error_value =
  err_status :: "int option"

section \<open>The status token\<close>

text \<open>
  The expression \<open>err ? err.status || 500 : res.statusCode || 404\<close>, which the
  \<open>:status\<close> and the \<open>:content-length\<close> entries of \<open>RESPONSE\<close> both start with.
\<close>

definition effective_status :: "error_value option \<Rightarrow> response \<Rightarrow> int" where
  "effective_status err res =
     (case err of
        Some e \<Rightarrow>
          (case err_status e of
             None \<Rightarrow> 500
           | Some n \<Rightarrow> if n \<noteq> 0 then n else 500)
      | None \<Rightarrow> if statusCode res \<noteq> 0 then statusCode res else 404)"

text \<open>
  \<open>RESPONSE[":status"]\<close>: the pair of \<open>value\<close> and \<open>colorized\<close>.  The colour is
  \<open>None\<close> where \<open>chalkColorsMap[color]\<close> would be \<open>undefined\<close>.
\<close>

definition RESPONSE_status :: "error_value option \<Rightarrow> response \<Rightarrow> string \<times> style option" where
  "RESPONSE_status err res =
     (let status = effective_status err res;
          s = ToInt32 (trunc_div status 100);
          color = (case map_of colorCodes s of
                     Some c \<Rightarrow> Some c
                   | None \<Rightarrow> map_of colorCodes 0)
      in (String_of status, Option.bind color (map_of chalkColorsMap)))"

text \<open>
  Thousands grouping as the specification words it, for comparison with \<open>humanize\<close>:
  the digits are cut into groups of three from the right, and a comma stands before
  every complete group that has a digit to its left.
\<close>

fun group3 :: "string \<Rightarrow> string" where
  "group3 ds =
     (if length ds \<le> 3 then ds
      else group3 (take (length ds - 3) ds) @ '','' @ drop (length ds - 3) ds)"

declare group3.simps [simp del]

section \<open>Regular expressions of the host language\<close>

text \<open>
  The patterns of \<open>regexes\<close> are kept as syntax trees and run by a backtracking
  matcher that follows the matching rules of the language standard: alternatives
  are tried from left to right, quantifiers are greedy, the capture groups inside a
  quantified group are reset when an iteration starts, an iteration that matches
  nothing once the minimum is reached is refused, a back reference to a group that
  captured nothing matches the empty string, a look-ahead keeps the captures of its
  first match and is not re-entered, and with the flag \<open>i\<close> characters are compared
  after upper-casing.  Only the letters \<open>a\<close> to \<open>z\<close> have another case here, which is
  exact for patterns whose letters are all ASCII.
\<close>

definition is_space :: "char \<Rightarrow> bool" where
  "is_space c = ((of_char c :: nat) \<in> {9, 10, 11, 12, 13, 32, 160})"

definition is_lower :: "char \<Rightarrow> bool" where
  "is_lower c = (97 \<le> (of_char c :: nat) \<and> (of_char c :: nat) \<le> 122)"

definition is_upper :: "char \<Rightarrow> bool" where
  "is_upper c = (65 \<le> (of_char c :: nat) \<and> (of_char c :: nat) \<le> 90)"

definition to_upper :: "char \<Rightarrow> char" where
  "to_upper c = (if is_lower c then char_of ((of_char c :: nat) - 32) else c)"

definition to_lower :: "char \<Rightarrow> char" where
  "to_lower c = (if is_upper c then char_of ((of_char c :: nat) + 32) else c)"

text \<open>The characters \<open>\b\<close> counts as part of a word: \<open>[A-Za-z0-9_]\<close>.\<close>

definition is_word :: "char \<Rightarrow> bool" where
  "is_word c = (is_lower c \<or> is_upper c \<or> is_digit c \<or> c = CHR ''_'')"

datatype re =
    Eps
  | Chr char
  | Cls bool "(char \<times> char) list"
  | Dot
  | Seq re re
  | Alt re re
  | Rep nat "nat option" re
  | Grp nat re
  | Bref nat
  | Look bool re
  | Bol
  | Eol
  | WordB

text \<open>
  \<open>Cls neg rs\<close> is a character class of ranges, inverted when \<open>neg\<close> holds;
  \<open>Rep m n r\<close> is \<open>r{m,n}\<close> (\<open>None\<close> for no upper bound); \<open>Grp i r\<close> is the \<open>i\<close>-th
  capturing group; \<open>Look True r\<close> is \<open>(?=r)\<close> and \<open>Look False r\<close> is \<open>(?!r)\<close>; \<open>Bol\<close>
  and \<open>Eol\<close> are the anchors without the flag \<open>m\<close>.
\<close>

record mstate =
  prev :: "char option"
  rest :: string
  caps :: "(nat \<times> string) list"

definition in_ranges :: "(char \<times> char) list \<Rightarrow> char \<Rightarrow> bool" where
  "in_ranges rs c =
     list_ex (\<lambda>(lo, hi). (of_char lo :: nat) \<le> of_char c \<and> (of_char c :: nat) \<le> of_char hi) rs"

definition canon :: "bool \<Rightarrow> char \<Rightarrow> char" where
  "canon ic c = (if ic then to_upper c else c)"

definition cls_match :: "bool \<Rightarrow> (char \<times> char) list \<Rightarrow> char \<Rightarrow> bool" where
  "cls_match ic rs c =
     (in_ranges rs c \<or> (ic \<and> (in_ranges rs (to_upper c) \<or> in_ranges rs (to_lower c))))"

definition is_line_terminator :: "char \<Rightarrow> bool" where
  "is_line_terminator c = ((of_char c :: nat) \<in> {10, 13})"

text \<open>One character is consumed when \<open>ok\<close> accepts it.\<close>

definition step_char :: "(char \<Rightarrow> bool) \<Rightarrow> mstate \<Rightarrow> mstate list" where
  "step_char ok x =
     (case rest x of
        [] \<Rightarrow> []
      | d # ds \<Rightarrow> if ok d then [x\<lparr>prev := Some d, rest := ds\<rparr>] else [])"

text \<open>The text consumed between two states of one run.\<close>

definition consumed :: "mstate \<Rightarrow> mstate \<Rightarrow> string" where
  "consumed x y = take (length (rest x) - length (rest y)) (rest x)"

definition set_cap :: "nat \<Rightarrow> mstate \<Rightarrow> mstate \<Rightarrow> mstate" where
  "set_cap i x y = y\<lparr>caps := (i, consumed x y) # filter (\<lambda>(j, _). j \<noteq> i) (caps y)\<rparr>"

definition back_ref :: "bool \<Rightarrow> nat \<Rightarrow> mstate \<Rightarrow> mstate list" where
  "back_ref ic i x =
     (case map_of (caps x) i of
        None \<Rightarrow> [x]
      | Some s \<Rightarrow>
          if s = [] then [x]
          else if length s \<le> length (rest x)
                  \<and> map (canon ic) (take (length s) (rest x)) = map (canon ic) s
          then [x\<lparr>prev := Some (last (take (length s) (rest x))),
                   rest := drop (length s) (rest x)\<rparr>]
          else [])"

definition word_boundary :: "mstate \<Rightarrow> bool" where
  "word_boundary x =
     ((case prev x of None \<Rightarrow> False | Some c \<Rightarrow> is_word c)
      \<noteq> (case rest x of [] \<Rightarrow> False | d # _ \<Rightarrow> is_word d))"

text \<open>The capture groups that stand inside a pattern.\<close>

primrec groups_of :: "re \<Rightarrow> nat list" where
  "groups_of Eps = []"
| "groups_of (Chr c) = []"
| "groups_of (Cls neg rs) = []"
| "groups_of Dot = []"
| "groups_of (Seq a b) = groups_of a @ groups_of b"
| "groups_of (Alt a b) = groups_of a @ groups_of b"
| "groups_of (Rep m n r) = groups_of r"
| "groups_of (Grp i r) = i # groups_of r"
| "groups_of (Bref i) = []"
| "groups_of (Look pos r) = groups_of r"
| "groups_of Bol = []"
| "groups_of Eol = []"
| "groups_of WordB = []"

text \<open>
  The repeat matcher for a body \<open>f\<close> whose groups are \<open>gs\<close>: \<open>lo\<close> iterations are
  owed and at most \<open>hi\<close> are allowed.  All the ways to go on are listed, the preferred
  one first.
\<close>

fun repeat :: "(mstate \<Rightarrow> mstate list) \<Rightarrow> nat list \<Rightarrow> nat \<Rightarrow> nat \<Rightarrow> mstate \<Rightarrow> mstate list" where
  "repeat f gs lo 0 x = [x]"
| "repeat f gs lo (Suc hi) x =
     (let ys = f (x\<lparr>caps := filter (\<lambda>(j, _). j \<notin> set gs) (caps x)\<rparr>);
          more = concat (map (\<lambda>y. if lo = 0 \<and> length (rest y) = length (rest x) then []
                                    else repeat f gs (lo - 1) hi y) ys)
      in if lo = 0 then more @ [x] else more)"

text \<open>
  All the ways the pattern matches at a state, the preferred one first.  A quantifier
  with no upper bound is run with the bound \<open>lo\<close> plus the number of characters left:
  every iteration beyond the minimum consumes a character.
\<close>

primrec rmatch :: "bool \<Rightarrow> re \<Rightarrow> mstate \<Rightarrow> mstate list" where
  "rmatch ic Eps x = [x]"
| "rmatch ic (Chr c) x = step_char (\<lambda>d. canon ic d = canon ic c) x"
| "rmatch ic (Cls neg rs) x = step_char (\<lambda>d. cls_match ic rs d \<noteq> neg) x"
| "rmatch ic Dot x = step_char (\<lambda>d. \<not> is_line_terminator d) x"
| "rmatch ic (Seq a b) x = concat (map (rmatch ic b) (rmatch ic a x))"
| "rmatch ic (Alt a b) x = rmatch ic a x @ rmatch ic b x"
| "rmatch ic (Rep lo hi r) x =
     repeat (rmatch ic r) (groups_of r) lo
       (case hi of None \<Rightarrow> lo + length (rest x) | Some k \<Rightarrow> k) x"
| "rmatch ic (Grp i r) x = map (set_cap i x) (rmatch ic r x)"
| "rmatch ic (Bref i) x = back_ref ic i x"
| "rmatch ic (Look pos r) x =
     (case rmatch ic r x of
        [] \<Rightarrow> if pos then [] else [x]
      | y # _ \<Rightarrow> if pos then [x\<lparr>caps := caps y\<rparr>] else [])"
| "rmatch ic Bol x = (if prev x = None then [x] else [])"
| "rmatch ic Eol x = (if rest x = [] then [x] else [])"
| "rmatch ic WordB x = (if word_boundary x then [x] else [])"

text \<open>
  The first match at or after the current position: the text skipped before it,
  and its final state.
\<close>

fun re_search :: "bool \<Rightarrow> re \<Rightarrow> char option \<Rightarrow> string \<Rightarrow> (string \<times> mstate) option" where
  "re_search ic r p s =
     (case rmatch ic r \<lparr>prev = p, rest = s, caps = []\<rparr> of
        y # _ \<Rightarrow> Some ([], y)
      | [] \<Rightarrow>
          (case s of
             [] \<Rightarrow> None
           | c # cs \<Rightarrow> map_option (\<lambda>(k, y). (c # k, y)) (re_search ic r (Some c) cs)))"

text \<open>\<open>pattern.test(s)\<close> for a pattern without the flags \<open>g\<close> and \<open>y\<close>.\<close>

definition re_test :: "bool \<Rightarrow> re \<Rightarrow> string \<Rightarrow> bool" where
  "re_test ic r s = (re_search ic r None s \<noteq> None)"

text \<open>Sequences, alternatives and literal text, as nested pairs.\<close>

fun Seqs :: "re list \<Rightarrow> re" where
  "Seqs [] = Eps"
| "Seqs [r] = r"
| "Seqs (r # rs) = Seq r (Seqs rs)"

fun Alts :: "re list \<Rightarrow> re" where
  "Alts [] = Eps"
| "Alts [r] = r"
| "Alts (r # rs) = Alt r (Alts rs)"

definition Lit :: "string \<Rightarrow> re" where
  "Lit s = Seqs (map Chr s)"

definition Digit :: re where
  "Digit = Cls False [(CHR ''0'', CHR ''9'')]"

definition Opt :: "re \<Rightarrow> re" where
  "Opt r = Rep 0 (Some 1) r"

section \<open>Client address\<close>

text \<open>
  \<open>regexes.ipv4\<close>:
  \<^verbatim>\<open>/^(?:(?:\d|[1-9]\d|1\d{2}|2[0-4]\d|25[0-5])\.){3}(?:\d|[1-9]\d|1\d{2}|2[0-4]\d|25[0-5])$/\<close>
\<close>

definition ipv4_octet :: re where
  "ipv4_octet =
     Alts [Digit,
           Seq (Cls False [(CHR ''1'', CHR ''9'')]) Digit,
           Seq (Chr CHR ''1'') (Rep 2 (Some 2) Digit),
           Seqs [Chr CHR ''2'', Cls False [(CHR ''0'', CHR ''4'')], Digit],
           Seqs [Chr CHR ''2'', Chr CHR ''5'', Cls False [(CHR ''0'', CHR ''5'')]]]"

definition ipv4 :: re where
  "ipv4 = Seqs [Bol, Rep 3 (Some 3) (Seq ipv4_octet (Chr CHR ''.'')), ipv4_octet, Eol]"

text \<open>
  \<open>regexes.ipv6\<close>, with the flag \<open>i\<close>:
  \<^verbatim>\<open>/^((?=.*::)(?!.*::.+::)(::)?([\dA-F]{1,4}:(:|\b)|){5}|([\dA-F]{1,4}:){6})\<close>
  \<^verbatim>\<open>((([\dA-F]{1,4}((?!\3)::|:\b|$))|(?!\2\3)){2}|(((2[0-4]|1\d|[1-9])?\d|25[0-5])\.?\b){4})$/i\<close>
\<close>

definition hex4 :: re where
  "hex4 = Rep 1 (Some 4) (Cls False [(CHR ''0'', CHR ''9''), (CHR ''A'', CHR ''F'')])"

definition ipv6_head :: re where
  "ipv6_head =
     Grp 1 (Alt
       (Seqs [Look True (Seq (Rep 0 None Dot) (Lit ''::'')),
              Look False (Seqs [Rep 0 None Dot, Lit ''::'', Rep 1 None Dot, Lit ''::'']),
              Opt (Grp 2 (Lit ''::'')),
              Rep 5 (Some 5)
                (Grp 3 (Alt (Seqs [hex4, Chr CHR '':'', Grp 4 (Alt (Chr CHR '':'') WordB)]) Eps))])
       (Rep 6 (Some 6) (Grp 5 (Seq hex4 (Chr CHR '':'')))))"

definition ipv6_tail :: re where
  "ipv6_tail =
     Grp 6 (Alt
       (Rep 2 (Some 2)
          (Grp 7 (Alt
             (Grp 8 (Seq hex4
                (Grp 9 (Alts [Seq (Look False (Bref 3)) (Lit ''::''),
                              Seq (Chr CHR '':'') WordB,
                              Eol]))))
             (Look False (Seq (Bref 2) (Bref 3))))))
       (Rep 4 (Some 4)
          (Grp 10 (Seqs
             [Grp 11 (Alt
                (Seq (Opt (Grp 12 (Alts [Seq (Chr CHR ''2'') (Cls False [(CHR ''0'', CHR ''4'')]),
                                         Seq (Chr CHR ''1'') Digit,
                                         Cls False [(CHR ''1'', CHR ''9'')]])))
                     Digit)
                (Seqs [Chr CHR ''2'', Chr CHR ''5'', Cls False [(CHR ''0'', CHR ''5'')]])),
              Opt (Chr CHR ''.''),
              WordB]))))"

definition ipv6 :: re where
  "ipv6 = Seqs [Bol, ipv6_head, ipv6_tail, Eol]"

text \<open>\<open>ip(value)\<close>; an absent header is \<open>None\<close>.\<close>

definition ip :: "string option \<Rightarrow> bool" where
  "ip v =
     (case v of
        None \<Rightarrow> False
      | Some s \<Rightarrow> if s = [] then False else re_test False ipv4 s \<or> re_test True ipv6 s)"

text \<open>\<open>s.trim()\<close>.\<close>

definition trim :: "string \<Rightarrow> string" where
  "trim s = rev (dropWhile is_space (rev (dropWhile is_space s)))"

text \<open>
  The callback that \<open>getForwardedFor\<close> maps over the entries of the header: an entry
  that splits at \<open>:\<close> into exactly two parts is cut down to the first.
\<close>

definition strip_port :: "string \<Rightarrow> string" where
  "strip_port v =
     (let currentIp = trim v in
      if CHR '':'' \<in> set currentIp then
        (case split_on CHR '':'' currentIp of
           [a, b] \<Rightarrow> a
         | _ \<Rightarrow> currentIp)
      else currentIp)"

definition getForwardedFor :: "string option \<Rightarrow> string" where
  "getForwardedFor v =
     (case v of
        None \<Rightarrow> ''-''
      | Some s \<Rightarrow>
          if s = [] then ''-''
          else (case List.find (\<lambda>e. ip (Some e)) (map strip_port (split_on CHR '','' s)) of
                  Some e \<Rightarrow> e
                | None \<Rightarrow> ''-''))"

text \<open>
  The request as the module reads it.  \<open>originalUrl\<close> is empty when the framework did
  not set it; the header object, the socket and the deprecated connection are optional
  because \<open>getIp\<close> tests them.
\<close>

record peer =
  remoteAddress :: "string option"

record request =
  req_method :: string
  originalUrl :: string
  url :: string
  headers :: "(string \<rightharpoonup> string) option"
  socket :: "peer option"
  connection :: "peer option"
  httpVersionMajor :: nat
  httpVersionMinor :: nat
  protocol :: string

text \<open>The step \<open>if (ip(x)) return x\<close>: the candidate when it validates.\<close>

definition accepted :: "string option \<Rightarrow> string option" where
  "accepted v = (if ip v then v else None)"

definition getIp :: "request \<Rightarrow> string" where
  "getIp req =
     (case headers req of
        None \<Rightarrow> ''-''
      | Some hs \<Rightarrow>
     (case accepted (hs ''x-client-ip'') of
        Some a \<Rightarrow> a
      | None \<Rightarrow>
     (let forwardedFor = getForwardedFor (hs ''x-forwarded-for'') in
      if forwardedFor \<noteq> ''-'' then forwardedFor
      else
     (case accepted (hs ''x-real-ip'') of
        Some a \<Rightarrow> a
      | None \<Rightarrow>
     (case accepted (hs ''x-forwarded'') of
        Some a \<Rightarrow> a
      | None \<Rightarrow>
     (case accepted (hs ''forwarded-for'') of
        Some a \<Rightarrow> a
      | None \<Rightarrow>
     (case accepted (case socket req of None \<Rightarrow> None | Some k \<Rightarrow> remoteAddress k) of
        Some a \<Rightarrow> a
      | None \<Rightarrow>
     (case accepted (case connection req of None \<Rightarrow> None | Some k \<Rightarrow> remoteAddress k) of
        Some a \<Rightarrow> a
      | None \<Rightarrow> ''-''))))))))"

section \<open>The response-time token\<close>

text \<open>The value of a decimal numeral.\<close>

definition parse_digits :: "string \<Rightarrow> nat" where
  "parse_digits s = foldl (\<lambda>a c. 10 * a + (of_char c - 48)) 0 s"

text \<open>
  \<open>Number(h)\<close> on what \<open>getHeader\<close> returned: \<open>undefined\<close> is \<open>NaN\<close>, a number is
  itself.  The middleware stores the start time as a number.  Of the strings another
  writer could store, the decimal integers are read: the white space around is
  dropped, the empty string is 0, and a sign may stand in front of the digits.  The
  other numerals of the language (with a fraction, an exponent or a radix prefix, and
  \<open>Infinity\<close>) have no value among the integers of this model and count as \<open>NaN\<close>
  here; no property below reads a string.
\<close>

definition Number_of :: "hval option \<Rightarrow> int option" where
  "Number_of h =
     (case h of
        None \<Rightarrow> None
      | Some (HNum n) \<Rightarrow> Some n
      | Some (HStr s) \<Rightarrow>
          (let t = trim s;
               neg = (t \<noteq> [] \<and> hd t = CHR ''-'');
               ds = (if t \<noteq> [] \<and> (hd t = CHR ''-'' \<or> hd t = CHR ''+'') then tl t else t)
           in if t = [] then Some 0
              else if ds \<noteq> [] \<and> (\<forall>c\<in>set ds. is_digit c)
              then Some (if neg then - int (parse_digits ds) else int (parse_digits ds))
              else None))"

text \<open>\<open>RESPONSE[":response-time"]\<close> at the clock reading \<open>now\<close>.\<close>

definition RESPONSE_response_time :: "int \<Rightarrow> response \<Rightarrow> string \<times> style option" where
  "RESPONSE_response_time now res =
     (let start = res_headers res ''x-start-time'';
          (t, delta) = time now (Number_of start)
      in (t, Some (getColorForTime delta)))"

section \<open>The libraries and the clock\<close>

text \<open>
  What the module calls outside itself is a parameter of the model: \<open>chalk\<close> wraps a
  string in a style, \<open>bytes\<close> renders a byte count, \<open>inspect\<close> is what \<open>util.format\<close>
  prints for a string argument under a directive other than \<open>%s\<close>, and the two locale
  functions render the date and the time of an instant.  An instant is the number of
  milliseconds that \<open>Date.now()\<close> returns; \<open>getUTC\<close> gives what the getters
  \<open>getUTCFullYear\<close>, \<open>getUTCMonth\<close> (from 0), \<open>getUTCDate\<close>, \<open>getUTCHours\<close>,
  \<open>getUTCMinutes\<close> and \<open>getUTCSeconds\<close> of a \<open>Date\<close> at that instant return.
\<close>

record utc_fields =
  utcFullYear :: int
  utcMonth :: nat
  utcDate :: nat
  utcHours :: nat
  utcMinutes :: nat
  utcSeconds :: nat

record host =
  chalk :: "style \<Rightarrow> string \<Rightarrow> string"
  bytes :: "int \<Rightarrow> string"
  inspect :: "char \<Rightarrow> string \<Rightarrow> string"
  toLocaleDateString :: "int \<Rightarrow> string"
  toLocaleTimeString :: "int \<Rightarrow> string"
  getUTC :: "int \<Rightarrow> utc_fields"

datatype error = TypeError

text \<open>
  \<open>util.format(template, ...args)\<close> with string arguments.  \<open>fmt_scan\<close> is the loop over
  the template: it returns the text and the arguments left over.  \<open>%s\<close> takes the next argument as it is, \<open>%c\<close> takes it and prints nothing,
  \<open>%%\<close> prints one percent sign; once the arguments are used up only \<open>%%\<close> is still
  rewritten.  Arguments left over are appended, a space before each.  With no argument
  at all the template is returned unchanged.
\<close>

fun fmt_scan :: "host \<Rightarrow> string \<Rightarrow> string list \<Rightarrow> string \<times> string list" where
  "fmt_scan h (c # d # cs) args =
     (if c = CHR ''%'' then
        (case args of
           [] \<Rightarrow>
             if d = CHR ''%'' then (let (out, r) = fmt_scan h cs args in (CHR ''%'' # out, r))
             else (let (out, r) = fmt_scan h cs args in (c # d # out, r))
         | a # as \<Rightarrow>
             if d = CHR ''s'' then (let (out, r) = fmt_scan h cs as in (a @ out, r))
             else if d \<in> set ''jdOoif'' then
               (let (out, r) = fmt_scan h cs as in (inspect h d a @ out, r))
             else if d = CHR ''c'' then fmt_scan h cs as
             else if d = CHR ''%'' then
               (let (out, r) = fmt_scan h cs args in (CHR ''%'' # out, r))
             else (let (out, r) = fmt_scan h cs args in (c # d # out, r)))
      else (let (out, r) = fmt_scan h (d # cs) args in (c # out, r)))"
| "fmt_scan h cs args = (cs, args)"

definition util_format :: "host \<Rightarrow> string \<Rightarrow> string list \<Rightarrow> string" where
  "util_format h template args =
     (if args = [] then template
      else (let (out, r) = fmt_scan h template args in out @ concat (map (\<lambda>a. CHR '' '' # a) r)))"

section \<open>Tokens\<close>

definition TOKENS :: "string list" where
  "TOKENS =
     ['':incoming'', '':remote-address'', '':date'', '':method'', '':url'',
      '':http-version'', '':status'', '':content-length'', '':response-time'',
      '':referrer'', '':user-agent'']"

text \<open>\<open>regexes.tokenFormat\<close>, with the flag \<open>i\<close>: \<^verbatim>\<open>/(:\[[^\]]+\]|:[a-z\-_]+)/gi\<close>.\<close>

definition tokenFormat :: re where
  "tokenFormat =
     Grp 1 (Alt
       (Seqs [Chr CHR '':'', Chr CHR ''['', Rep 1 None (Cls True [(CHR '']'', CHR '']'')]),
              Chr CHR '']''])
       (Seq (Chr CHR '':'')
            (Rep 1 None (Cls False [(CHR ''a'', CHR ''z''), (CHR ''-'', CHR ''-''),
                                    (CHR ''_'', CHR ''_'')]))))"

text \<open>
  \<open>s.split(pattern)\<close>: the pieces between the matches, each match followed by the text
  of the groups of the pattern (the empty string for a group that took no part; the one
  group of \<open>tokenFormat\<close> spans every match).  \<open>cur\<close> is the piece collected since the
  last match.  A match of no character is passed over when no piece was collected, and
  closes the piece otherwise without consuming anything.
\<close>

fun re_split_from :: "bool \<Rightarrow> re \<Rightarrow> char option \<Rightarrow> string \<Rightarrow> string \<Rightarrow> string list" where
  "re_split_from ic r p cur [] = [cur]"
| "re_split_from ic r p cur (c # cs) =
     (case rmatch ic r \<lparr>prev = p, rest = c # cs, caps = []\<rparr> of
        [] \<Rightarrow> re_split_from ic r (Some c) (cur @ [c]) cs
      | y # _ \<Rightarrow>
          (let n = Suc (length cs) - length (rest y);
               groups = map (\<lambda>i. case map_of (caps y) i of None \<Rightarrow> [] | Some g \<Rightarrow> g)
                          (groups_of r)
           in if n = 0 then
                (if cur = [] then [] else cur # groups) @ re_split_from ic r (Some c) [c] cs
              else cur # groups @ re_split_from ic r (prev y) [] (drop (n - 1) cs)))"

definition re_split :: "bool \<Rightarrow> re \<Rightarrow> string \<Rightarrow> string list" where
  "re_split ic r s = re_split_from ic r None [] s"

text \<open>\<open>token.replace(regexes.tokenWithoutBrackets, "")\<close>, the pattern being \<open>/\[|\]/g\<close>.\<close>

definition strip_brackets :: "string \<Rightarrow> string" where
  "strip_brackets token = filter (\<lambda>c. c \<noteq> CHR ''['' \<and> c \<noteq> CHR '']'') token"

text \<open>\<open>token.replace(/\s/g, "")\<close>.\<close>

definition strip_spaces :: "string \<Rightarrow> string" where
  "strip_spaces token = filter (\<lambda>c. \<not> is_space c) token"

record parsed =
  tokens :: "string list"
  isIncommingSet :: bool

text \<open>
  The names every object inherits.  The cache \<open>parsedTokens\<close> is a plain object, so a
  look-up under one of these names finds the inherited property, which is truthy and
  has neither \<open>tokens\<close> nor \<open>isIncommingSet\<close>.
\<close>

definition inherited_names :: "string list" where
  "inherited_names =
     [''constructor'', ''__defineGetter__'', ''__defineSetter__'', ''hasOwnProperty'',
      ''__lookupGetter__'', ''__lookupSetter__'', ''isPrototypeOf'',
      ''propertyIsEnumerable'', ''toString'', ''valueOf'', ''__proto__'',
      ''toLocaleString'']"

text \<open>
  \<open>extractTokens\<close> with the cache as state.  The result is \<open>None\<close> when the look-up
  returned an inherited property.
\<close>

definition fresh_tokens :: "string \<Rightarrow> parsed" where
  "fresh_tokens format =
     (let mapped = map strip_spaces
                     (filter (\<lambda>token. trim token \<noteq> []) (re_split True tokenFormat format))
      in \<lparr>tokens = filter (\<lambda>token. strip_brackets token \<in> set TOKENS) mapped,
          isIncommingSet = list_ex (\<lambda>token. strip_brackets token = '':incoming'') mapped\<rparr>)"

definition extractTokens ::
  "(string \<rightharpoonup> parsed) \<Rightarrow> string \<Rightarrow> parsed option \<times> (string \<rightharpoonup> parsed)" where
  "extractTokens parsedTokens format =
     (case parsedTokens format of
        Some p \<Rightarrow> (Some p, parsedTokens)
      | None \<Rightarrow>
          if format \<in> set inherited_names then (None, parsedTokens)
          else (Some (fresh_tokens format), parsedTokens(format \<mapsto> fresh_tokens format)))"

section \<open>Token values\<close>

text \<open>
  \<open>timestamp()\<close> at the instant \<open>now\<close>: the locale date, a space and the locale time,
  trimmed, every run of white space replaced by one space (\<open>in_run\<close> tells that the
  character before was white space).
\<close>

fun collapse_from :: "bool \<Rightarrow> string \<Rightarrow> string" where
  "collapse_from in_run [] = []"
| "collapse_from in_run (c # cs) =
     (if is_space c then (if in_run then collapse_from True cs else CHR '' '' # collapse_from True cs)
      else c # collapse_from False cs)"

definition collapse_spaces :: "string \<Rightarrow> string" where
  "collapse_spaces s = collapse_from False s"

definition timestamp :: "host \<Rightarrow> int \<Rightarrow> string" where
  "timestamp h now =
     collapse_spaces (trim (toLocaleDateString h now @ '' '' @ toLocaleTimeString h now))"

text \<open>\<open>a || b || "-"\<close> over two optional header values: the first that is not empty.\<close>

definition first_truthy :: "string option \<Rightarrow> string option \<Rightarrow> string" where
  "first_truthy a b =
     (case a of
        Some x \<Rightarrow> if x \<noteq> [] then x else (case b of Some y \<Rightarrow> if y \<noteq> [] then y else ''-'' | None \<Rightarrow> ''-'')
      | None \<Rightarrow> (case b of Some y \<Rightarrow> if y \<noteq> [] then y else ''-'' | None \<Rightarrow> ''-''))"

text \<open>
  The table \<open>REQUEST\<close>.  Reading a header of a request without header object raises.
\<close>

definition REQUEST :: "host \<Rightarrow> int \<Rightarrow> (string \<times> (request \<Rightarrow> error + string)) list" where
  "REQUEST h now =
     [('':method'', \<lambda>req. Inr (req_method req)),
      ('':url'', \<lambda>req. Inr (if originalUrl req \<noteq> [] then originalUrl req else url req)),
      ('':date'', \<lambda>req. Inr (timestamp h now)),
      ('':remote-address'', \<lambda>req. Inr (getIp req)),
      ('':referrer'', \<lambda>req.
         case headers req of
           None \<Rightarrow> Inl TypeError
         | Some hs \<Rightarrow> Inr (first_truthy (hs ''referer'') (hs ''referrer''))),
      ('':user-agent'', \<lambda>req.
         case headers req of
           None \<Rightarrow> Inl TypeError
         | Some hs \<Rightarrow> Inr (first_truthy (hs ''user-agent'') None)),
      ('':http-version'', \<lambda>req.
         Inr (''HTTP/'' @ String_of (int (httpVersionMajor req)) @ ''.''
              @ String_of (int (httpVersionMinor req))))]"

text \<open>
  \<open>parseInt(s, 10)\<close>: leading white space, a sign, then digits; \<open>None\<close> is \<open>NaN\<close>.
\<close>

definition parseInt10 :: "string \<Rightarrow> int option" where
  "parseInt10 s =
     (let s1 = dropWhile is_space s;
          neg = (case s1 of [] \<Rightarrow> False | c # _ \<Rightarrow> c = CHR ''-'');
          s2 = (case s1 of [] \<Rightarrow> [] | c # r \<Rightarrow> if c = CHR ''-'' \<or> c = CHR ''+'' then r else s1);
          ds = takeWhile is_digit s2
      in if ds = [] then None
         else Some (if neg then - int (parse_digits ds) else int (parse_digits ds)))"

text \<open>
  \<open>s.toLowerCase()\<close> and \<open>s.toUpperCase()\<close>, on the letters \<open>a\<close> to \<open>z\<close>: this is
  what the language does on a string without a letter outside ASCII, which is the
  case of the two strings they are applied to (the name of the protocol and what
  \<open>bytes\<close> prints) on every host considered below.
\<close>

definition toLowerCase :: "string \<Rightarrow> string" where
  "toLowerCase s = map to_lower s"

definition toUpperCase :: "string \<Rightarrow> string" where
  "toUpperCase s = map to_upper s"

text \<open>
  \<open>RESPONSE[":content-length"]\<close>.  The header counts when it is truthy; a header that
  does not start with a number makes \<open>bytes\<close> return \<open>null\<close>, and the call of
  \<open>toLowerCase\<close> on it raises.
\<close>

definition RESPONSE_content_length ::
  "host \<Rightarrow> error_value option \<Rightarrow> response \<Rightarrow> error + string" where
  "RESPONSE_content_length h err res =
     (let status = effective_status err res;
          contentLength =
            (case res_headers res ''content-length'' of
               None \<Rightarrow> None
             | Some (HNum n) \<Rightarrow> if n = 0 then None else Some (Some n)
             | Some (HStr s) \<Rightarrow> if s = [] then None else Some (parseInt10 s))
      in if status \<in> {204, 205, 304} then Inr []
         else (case contentLength of
                 None \<Rightarrow> Inr ''-''
               | Some None \<Rightarrow> Inl TypeError
               | Some (Some n) \<Rightarrow> Inr (toLowerCase (bytes h n))))"

text \<open>
  What an entry of \<open>RESPONSE\<close> returns: a string, or an object of a value and a colour.
\<close>

datatype rvalue = Plain string | Styled string "style option"

definition RESPONSE ::
  "host \<Rightarrow> int \<Rightarrow> (string \<times> (request \<Rightarrow> response \<Rightarrow> error_value option \<Rightarrow> error + rvalue)) list"
  where
  "RESPONSE h now =
     [('':date'', \<lambda>req res err. Inr (Plain (timestamp h now))),
      ('':status'', \<lambda>req res err.
         Inr (Styled (fst (RESPONSE_status err res)) (snd (RESPONSE_status err res)))),
      ('':content-length'', \<lambda>req res err.
         case RESPONSE_content_length h err res of
           Inl e \<Rightarrow> Inl e
         | Inr s \<Rightarrow> Inr (Plain s)),
      ('':response-time'', \<lambda>req res err.
         Inr (Styled (fst (RESPONSE_response_time now res))
                     (snd (RESPONSE_response_time now res)))),
      ('':method'', \<lambda>req res err. Inr (Plain (req_method req))),
      ('':url'', \<lambda>req res err.
         Inr (Plain (if originalUrl req \<noteq> [] then originalUrl req else url req)))]"

section \<open>Placeholder functions\<close>

text \<open>
  The colour argument of \<open>interpolate\<close> is a name or a style.  The function that
  \<open>interpolate\<close> returns is kept as the values it closes over: whether the token holds
  a bracket, the token without its brackets, and the colour.
\<close>

datatype color_arg = Name string | Fn style

definition colorizedFn :: "color_arg \<Rightarrow> style" where
  "colorizedFn color =
     (case color of
        Fn f \<Rightarrow> f
      | Name n \<Rightarrow> (case map_of chalkColorsMap n of Some f \<Rightarrow> f | None \<Rightarrow> Gray))"

datatype closure = Closure bool string color_arg

definition interpolate :: "string \<Rightarrow> color_arg \<Rightarrow> closure" where
  "interpolate token color =
     Closure (list_ex (\<lambda>c. c = CHR ''['' \<or> c = CHR '']'') token) (strip_brackets token) color"

text \<open>Calling the function that \<open>interpolate\<close> returned.\<close>

fun call_closure ::
  "host \<Rightarrow> int \<Rightarrow> closure \<Rightarrow> bool \<Rightarrow> request \<Rightarrow> response \<Rightarrow> error_value option
     \<Rightarrow> error + string" where
  "call_closure h now (Closure isContainsBrackets t color) isRequest req res err =
     (let wrap = (\<lambda>s. if isContainsBrackets then CHR ''['' # s @ [CHR '']''] else s) in
      if isRequest then
        (case map_of (REQUEST h now) t of
           None \<Rightarrow> Inl TypeError
         | Some f \<Rightarrow>
             (case f req of
                Inl e \<Rightarrow> Inl e
              | Inr result \<Rightarrow> Inr (chalk h (colorizedFn color) (wrap result))))
      else
        (case map_of (RESPONSE h now) t of
           None \<Rightarrow> Inl TypeError
         | Some f \<Rightarrow>
             (case f req res err of
                Inl e \<Rightarrow> Inl e
              | Inr (Styled v colorized) \<Rightarrow>
                  (case colorized of
                     None \<Rightarrow> Inl TypeError
                   | Some st \<Rightarrow> Inr (chalk h st (wrap v)))
              | Inr (Plain result) \<Rightarrow> Inr (chalk h (colorizedFn color) (wrap result)))))"

definition REQUEST_TOKENS :: "(string \<times> (string \<Rightarrow> closure)) list" where
  "REQUEST_TOKENS =
     [('':method'', \<lambda>token. interpolate token (Name ''whiteBright'')),
      ('':url'', \<lambda>token. interpolate token (Name ''magenta'')),
      ('':date'', \<lambda>token. interpolate token (Name ''gray'')),
      ('':remote-address'', \<lambda>token. interpolate token (Name ''gray'')),
      ('':referrer'', \<lambda>token. interpolate token (Name ''gray'')),
      ('':user-agent'', \<lambda>token. interpolate token (Name ''gray'')),
      ('':http-version'', \<lambda>token. interpolate token (Name ''gray''))]"

definition RESPONSE_TOKENS :: "(string \<times> (string \<Rightarrow> closure)) list" where
  "RESPONSE_TOKENS =
     [('':date'', \<lambda>token. interpolate token (Name ''gray'')),
      ('':status'', \<lambda>token. interpolate token (Name [])),
      ('':content-length'', \<lambda>token. interpolate token (Name ''gray'')),
      ('':response-time'', \<lambda>token. interpolate token (Name ''gray'')),
      ('':method'', \<lambda>token. interpolate token (Name ''whiteBright'')),
      ('':url'', \<lambda>token. interpolate token (Name ''magenta''))]"

section \<open>The compiler\<close>

text \<open>
  What the two functions that \<open>compile\<close> returns share: the two arrays of segments, the
  two arrays of placeholder functions and the index of the connector (\<open>-999\<close> for none).
  The arrays are objects of the heap, so what a call writes into them is there at the
  next call; the model passes the plan in and hands the written plan back.
\<close>

record plan =
  requestOutput :: "string list"
  responseOutput :: "string list"
  requstArgs :: "closure list"
  responseArgs :: "closure list"
  whereTheResponseIndicatorIs :: int

text \<open>The body of \<open>tokens.forEach\<close>, for one token.\<close>

definition push_token :: "host \<Rightarrow> string \<Rightarrow> plan \<Rightarrow> error + plan" where
  "push_token h token p =
     (let v = strip_brackets token in
      if v = '':incoming'' then
        Inr (p\<lparr>requestOutput := requestOutput p @ [chalk h Gray ''<--''],
               responseOutput := responseOutput p @ [''-->''],
               whereTheResponseIndicatorIs := int (length (responseOutput p @ [''-->''])) - 1\<rparr>)
      else if v = '':date'' then
        (case map_of REQUEST_TOKENS v of
           None \<Rightarrow> Inl TypeError
         | Some mk_req \<Rightarrow>
             (case map_of RESPONSE_TOKENS v of
                None \<Rightarrow> Inl TypeError
              | Some mk_res \<Rightarrow>
                  Inr (p\<lparr>requestOutput := requestOutput p @ [''%s''],
                         requstArgs := requstArgs p @ [mk_req token],
                         responseOutput := responseOutput p @ [''%s''],
                         responseArgs := responseArgs p @ [mk_res token]\<rparr>)))
      else
        (let p1 = (case map_of REQUEST_TOKENS v of
                     None \<Rightarrow> p
                   | Some mk_req \<Rightarrow>
                       p\<lparr>requestOutput := requestOutput p @ [''%s''],
                         requstArgs := requstArgs p @ [mk_req token]\<rparr>);
             p2 = (case map_of RESPONSE_TOKENS v of
                     None \<Rightarrow> p1
                   | Some mk_res \<Rightarrow>
                       p1\<lparr>responseOutput := responseOutput p1 @ [''%s''],
                          responseArgs := responseArgs p1 @ [mk_res token]\<rparr>)
         in Inr p2))"

text \<open>\<open>xs.forEach(f)\<close> for a body that can raise: the first error ends the loop.\<close>

fun forEach :: "('a \<Rightarrow> 's \<Rightarrow> error + 's) \<Rightarrow> 'a list \<Rightarrow> 's \<Rightarrow> error + 's" where
  "forEach f [] s = Inr s"
| "forEach f (x # xs) s = (case f x s of Inl e \<Rightarrow> Inl e | Inr s' \<Rightarrow> forEach f xs s')"

text \<open>
  The plan before the loop: the banners when \<open>:incoming\<close> is set, and otherwise the
  connector with its index.
\<close>

definition initial_plan :: "host \<Rightarrow> bool \<Rightarrow> plan" where
  "initial_plan h isIncomming =
     (let p0 = \<lparr>requestOutput = (if isIncomming then [chalk h Gray '' INCOMING ''] else []),
                responseOutput = (if isIncomming then [chalk h Gray '' OUTGOING ''] else []),
                requstArgs = [], responseArgs = [],
                whereTheResponseIndicatorIs = - 999\<rparr>
      in if \<not> isIncomming then
           p0\<lparr>requestOutput := requestOutput p0 @ [chalk h Gray ''<--''],
              responseOutput := responseOutput p0 @ [''-->''],
              whereTheResponseIndicatorIs := int (length (responseOutput p0 @ [''-->''])) - 1\<rparr>
         else p0)"

text \<open>
  \<open>compile(format)\<close> with the cache as state.  When \<open>extractTokens\<close> returned an
  inherited property, \<open>tokens\<close> is \<open>undefined\<close> and \<open>tokens.forEach\<close> raises.
\<close>

definition compile ::
  "host \<Rightarrow> (string \<rightharpoonup> parsed) \<Rightarrow> string \<Rightarrow> (error + plan) \<times> (string \<rightharpoonup> parsed)" where
  "compile h parsedTokens format =
     (case extractTokens parsedTokens format of
        (None, cache) \<Rightarrow> (Inl TypeError, cache)
      | (Some pt, cache) \<Rightarrow>
          (forEach (push_token h) (tokens pt) (initial_plan h (isIncommingSet pt)), cache))"

section \<open>Rendering\<close>

text \<open>\<open>fns.map(fn => fn(...))\<close> for functions that can raise.\<close>

fun map_calls :: "('a \<Rightarrow> error + 'b) \<Rightarrow> 'a list \<Rightarrow> error + 'b list" where
  "map_calls f [] = Inr []"
| "map_calls f (x # xs) =
     (case f x of
        Inl e \<Rightarrow> Inl e
      | Inr y \<Rightarrow> (case map_calls f xs of Inl e \<Rightarrow> Inl e | Inr ys \<Rightarrow> Inr (y # ys)))"

text \<open>The banner that both renders put in front: the protocol in upper case.\<close>

definition banner :: "host \<Rightarrow> request \<Rightarrow> string" where
  "banner h req = chalk h BgBlueBold ('' '' @ toUpperCase (protocol req) @ '' '')"

text \<open>
  \<open>logRequest\<close>: the line handed to \<open>print\<close>, and the plan as the call leaves it
  (\<open>unshift\<close> writes the banner into the shared array).
\<close>

definition logRequest ::
  "host \<Rightarrow> int \<Rightarrow> plan \<Rightarrow> request \<Rightarrow> response \<Rightarrow> error_value option
     \<Rightarrow> error + string \<times> plan" where
  "logRequest h now p req res err =
     (case map_calls (\<lambda>fn. call_closure h now fn True req res err) (requstArgs p) of
        Inl e \<Rightarrow> Inl e
      | Inr results \<Rightarrow>
          (let p' = p\<lparr>requestOutput := banner h req # requestOutput p\<rparr>
           in Inr (util_format h (join '' '' (requestOutput p')) results, p')))"

text \<open>The connector that the response render computes.\<close>

definition upstream :: "host \<Rightarrow> error_value option \<Rightarrow> string \<Rightarrow> response \<Rightarrow> string" where
  "upstream h err event res =
     (if err \<noteq> None then chalk h Red ''xxx''
      else if event = ''close'' then chalk h Yellow ''-x-''
      else if 500 \<le> statusCode res then chalk h Red ''xxx''
      else if statusCode res = 404 then chalk h Cyan ''-X-''
      else chalk h Gray ''-->'')"

text \<open>
  \<open>xs[i] = v\<close> on an array: an index beyond the end extends the array, and the holes
  left join as empty strings.
\<close>

definition array_set :: "string list \<Rightarrow> int \<Rightarrow> string \<Rightarrow> string list" where
  "array_set xs i v =
     (if i < 0 then xs
      else if nat i < length xs then xs[nat i := v]
      else xs @ replicate (nat i - length xs) [] @ [v])"

text \<open>\<open>logResponse\<close>: the line handed to \<open>print\<close>, and the plan as the call leaves it.\<close>

definition logResponse ::
  "host \<Rightarrow> int \<Rightarrow> plan \<Rightarrow> request \<Rightarrow> response \<Rightarrow> error_value option \<Rightarrow> string
     \<Rightarrow> error + string \<times> plan" where
  "logResponse h now p req res err event =
     (case map_calls (\<lambda>fn. call_closure h now fn False req res err) (responseArgs p) of
        Inl e \<Rightarrow> Inl e
      | Inr results \<Rightarrow>
          (let p1 = (if whereTheResponseIndicatorIs p \<noteq> - 999 then
                       p\<lparr>responseOutput :=
                            array_set (responseOutput p) (whereTheResponseIndicatorIs p)
                              (upstream h err event res)\<rparr>
                     else p);
               p2 = p1\<lparr>responseOutput := banner h req # responseOutput p1\<rparr>
           in Inr (util_format h (join '' '' (responseOutput p2)) results, p2)))"

section \<open>The middleware\<close>

text \<open>
  One exchange: the plan that the logger compiled, the response object, the listeners
  that the middleware registered on it (each the event it is registered for and the
  event name that \<open>done\<close> is bound to; all are registered with \<open>once\<close>), and the lines
  handed to \<open>print\<close>.
\<close>

record exchange =
  ex_plan :: plan
  ex_res :: response
  ex_listeners :: "(string \<times> string) list"
  ex_printed :: "string list"

text \<open>
  The function that \<open>logger\<close> returns, up to the call of \<open>next\<close>, at the instant \<open>now\<close>.
\<close>

definition handler :: "host \<Rightarrow> int \<Rightarrow> request \<Rightarrow> exchange \<Rightarrow> error + exchange" where
  "handler h now req ex =
     (let res = (ex_res ex)\<lparr>res_headers := (res_headers (ex_res ex))(''x-start-time'' \<mapsto> HNum now)\<rparr>
      in case logRequest h now (ex_plan ex) req res None of
           Inl e \<Rightarrow> Inl e
         | Inr (line, p) \<Rightarrow>
             Inr (ex\<lparr>ex_plan := p, ex_res := res,
                     ex_listeners := ex_listeners ex @ [(''finish'', ''finish''), (''close'', ''close'')],
                     ex_printed := ex_printed ex @ [line]\<rparr>))"

text \<open>\<open>removeListener\<close>: the listener added last among those that match is removed.\<close>

definition removeListener :: "string \<times> string \<Rightarrow> (string \<times> string) list \<Rightarrow> (string \<times> string) list" where
  "removeListener l ls = rev (remove1 l (rev ls))"

text \<open>\<open>done(event)\<close> at the instant \<open>now\<close>.\<close>

definition done_event :: "host \<Rightarrow> int \<Rightarrow> request \<Rightarrow> string \<Rightarrow> exchange \<Rightarrow> error + exchange" where
  "done_event h now req event ex =
     (let ls = removeListener (''close'', ''close'')
                 (removeListener (''finish'', ''finish'') (ex_listeners ex))
      in case logResponse h now (ex_plan ex) req (ex_res ex) None event of
           Inl e \<Rightarrow> Inl e
         | Inr (line, p) \<Rightarrow>
             Inr (ex\<lparr>ex_plan := p, ex_listeners := ls, ex_printed := ex_printed ex @ [line]\<rparr>))"

text \<open>
  The response emits an event: the listeners registered for it at that moment are
  called in turn, each taken off the list before it runs.
\<close>

fun call_listeners ::
  "host \<Rightarrow> int \<Rightarrow> request \<Rightarrow> (string \<times> string) list \<Rightarrow> exchange \<Rightarrow> error + exchange" where
  "call_listeners h now req [] ex = Inr ex"
| "call_listeners h now req (l # ls) ex =
     (case done_event h now req (snd l) (ex\<lparr>ex_listeners := removeListener l (ex_listeners ex)\<rparr>) of
        Inl e \<Rightarrow> Inl e
      | Inr ex' \<Rightarrow> call_listeners h now req ls ex')"

definition emit :: "host \<Rightarrow> int \<Rightarrow> request \<Rightarrow> string \<Rightarrow> exchange \<Rightarrow> error + exchange" where
  "emit h now req event ex =
     call_listeners h now req (filter (\<lambda>l. fst l = event) (ex_listeners ex)) ex"

section \<open>A host without colours\<close>

text \<open>
  A host for running the model on examples: the terminal supports no colour, so
  \<open>chalk\<close> returns its argument; \<open>bytes\<close> prints the number and \<open>B\<close> (which is what
  the library prints below 1024); the locale functions and the calendar fields are
  those of an \<open>en-US\<close> host in the time zone UTC at the instant 0.
\<close>

definition plain_host :: host where
  "plain_host =
     \<lparr>chalk = (\<lambda>st s. s),
      bytes = (\<lambda>n. String_of n @ ''B''),
      inspect = (\<lambda>c s. s),
      toLocaleDateString = (\<lambda>t. ''1/1/1970''),
      toLocaleTimeString = (\<lambda>t. ''12:00:00 AM''),
      getUTC = (\<lambda>t. \<lparr>utcFullYear = 1970, utcMonth = 0, utcDate = 1, utcHours = 0,
                        utcMinutes = 0, utcSeconds = 0\<rparr>)\<rparr>"

text \<open>A request for \<open>GET /users\<close> over HTTP/1.1, and a response that carries 42 bytes.\<close>

definition get_users :: request where
  "get_users =
     \<lparr>req_method = ''GET'', originalUrl = ''/users'', url = ''/users'',
      headers = Some Map.empty, socket = None, connection = None,
      httpVersionMajor = 1, httpVersionMinor = 1, protocol = ''http''\<rparr>"

definition ok_response :: response where
  "ok_response = \<lparr>statusCode = 200, res_headers = [''content-length'' \<mapsto> HStr ''42'']\<rparr>"

section \<open>What a token adds to a plan\<close>









section \<open>The second variant of the module\<close>

text \<open>
  The repository holds a second text of the module (the one with the table \<open>MONTHS\<close>
  and the function \<open>date\<close>).  It shares \<open>humanize\<close>, \<open>time\<close>, \<open>ip\<close>, \<open>getIp\<close>,
  \<open>extractTokens\<close>, the tables of colours and the connector logic with the first;
  what differs is modelled here, every name with the suffix \<open>_alt\<close> where the first
  variant has the same name.
\<close>

definition MONTHS :: "string list" where
  "MONTHS =
     [''Jan'', ''Feb'', ''Mar'', ''Apr'', ''May'', ''Jun'', ''Jul'', ''Aug'', ''Sep'', ''Oct'',
      ''Nov'', ''Dec'']"

definition pad2 :: "nat \<Rightarrow> string" where
  "pad2 num = (let str = digits num in (if length str = 1 then ''0'' else []) @ str)"

text \<open>
  \<open>date(dateTime)\<close> on the calendar fields of the \<open>Date\<close>.  An index outside the table
  reads \<open>undefined\<close>, which the concatenation prints.
\<close>

definition date :: "utc_fields \<Rightarrow> string" where
  "date d =
     pad2 (utcDate d) @ ''/''
     @ (if utcMonth d < length MONTHS then MONTHS ! utcMonth d else ''undefined'')
     @ ''/'' @ String_of (utcFullYear d) @ '':'' @ pad2 (utcHours d) @ '':''
     @ pad2 (utcMinutes d) @ '':'' @ pad2 (utcSeconds d) @ '' +0000''"

text \<open>Two decimal digits, as the specification words the padded fields.\<close>

definition two_digits :: "nat \<Rightarrow> string" where
  "two_digits n = [digit_char (n div 10), digit_char n]"

text \<open>
  The format of the common log, as the specification words it, on the calendar fields:
  day, month abbreviation and year, then hour, minute and second, every field but the
  year and the month in two digits, the year in four.
\<close>

definition four_digits :: "nat \<Rightarrow> string" where
  "four_digits n =
     [digit_char (n div 1000), digit_char (n div 100), digit_char (n div 10), digit_char n]"

definition apache_date :: "utc_fields \<Rightarrow> string" where
  "apache_date d =
     two_digits (utcDate d) @ ''/'' @ MONTHS ! utcMonth d @ ''/''
     @ four_digits (nat (utcFullYear d)) @ '':'' @ two_digits (utcHours d) @ '':''
     @ two_digits (utcMinutes d) @ '':'' @ two_digits (utcSeconds d) @ '' +0000''"

text \<open>\<open>regexes.time\<close>, \<^verbatim>\<open>/(\d+)(ms|s)/\<close>, and \<open>regexes.token\<close>, \<^verbatim>\<open>/:\[([a-z\-_]+)\]/g\<close>.\<close>

definition time_re :: re where
  "time_re = Seq (Grp 1 (Rep 1 None Digit)) (Grp 2 (Alt (Lit ''ms'') (Chr CHR ''s'')))"

definition token_re :: re where
  "token_re =
     Seqs [Chr CHR '':'', Chr CHR ''['',
           Grp 1 (Rep 1 None (Cls False [(CHR ''a'', CHR ''z''), (CHR ''-'', CHR ''-''),
                                         (CHR ''_'', CHR ''_'')])),
           Chr CHR '']'']"

text \<open>
  \<open>getColorForTime\<close> of the second variant reads the time back from the rendered string.
\<close>

definition getColorForTime_alt :: "string \<Rightarrow> style" where
  "getColorForTime_alt t =
     (case re_search False time_re None t of
        None \<Rightarrow> Gray
      | Some (skipped, y) \<Rightarrow>
          (let v = (case map_of (caps y) 1 of None \<Rightarrow> 0 | Some ds \<Rightarrow> int (parse_digits ds));
               unit = (case map_of (caps y) 2 of None \<Rightarrow> [] | Some u \<Rightarrow> u);
               milliseconds = (if unit = ''ms'' then v else v * 1000)
           in if milliseconds < 50 then Green
              else if milliseconds < 100 then Magenta
              else Red))"

definition REQUEST_alt :: "host \<Rightarrow> int \<Rightarrow> (string \<times> (request \<Rightarrow> error + string)) list" where
  "REQUEST_alt h now =
     [('':method'', \<lambda>req. Inr (req_method req)),
      ('':url'', \<lambda>req. Inr (if originalUrl req \<noteq> [] then originalUrl req else url req)),
      ('':date'', \<lambda>req. Inr (date (getUTC h now))),
      ('':remote-address'', \<lambda>req. Inr (getIp req)),
      ('':referrer'', \<lambda>req.
         case headers req of
           None \<Rightarrow> Inl TypeError
         | Some hs \<Rightarrow> Inr (first_truthy (hs ''referer'') (hs ''referrer''))),
      ('':user-agent'', \<lambda>req.
         case headers req of
           None \<Rightarrow> Inl TypeError
         | Some hs \<Rightarrow> Inr (first_truthy (hs ''user-agent'') None)),
      ('':http-version'', \<lambda>req.
         Inr (''HTTP/'' @ String_of (int (httpVersionMajor req)) @ ''.''
              @ String_of (int (httpVersionMinor req))))]"

definition RESPONSE_alt ::
  "host \<Rightarrow> int \<Rightarrow> (string \<times> (request \<Rightarrow> response \<Rightarrow> error_value option \<Rightarrow> error + rvalue)) list"
  where
  "RESPONSE_alt h now =
     [('':date'', \<lambda>req res err. Inr (Plain (date (getUTC h now)))),
      ('':status'', \<lambda>req res err.
         Inr (Styled (fst (RESPONSE_status err res)) (snd (RESPONSE_status err res)))),
      ('':content-length'', \<lambda>req res err.
         case RESPONSE_content_length h err res of
           Inl e \<Rightarrow> Inl e
         | Inr s \<Rightarrow> Inr (Plain s)),
      ('':response-time'', \<lambda>req res err.
         (let t = fst (time now (Number_of (res_headers res ''x-start-time'')))
          in Inr (Styled t (Some (getColorForTime_alt t))))),
      ('':method'', \<lambda>req res err. Inr (Plain (req_method req))),
      ('':url'', \<lambda>req res err.
         Inr (Plain (if originalUrl req \<noteq> [] then originalUrl req else url req)))]"

text \<open>
  \<open>interpolate\<close> of the second variant: a token that holds a bracketed name is looked
  up without its brackets and rendered in brackets; any other token is looked up as
  it is.
\<close>

definition interpolate_alt :: "string \<Rightarrow> color_arg \<Rightarrow> closure" where
  "interpolate_alt token color =
     (if re_test False token_re token then Closure True (strip_brackets token) color
      else Closure False token color)"

fun call_closure_alt ::
  "host \<Rightarrow> int \<Rightarrow> closure \<Rightarrow> bool \<Rightarrow> request \<Rightarrow> response \<Rightarrow> error_value option
     \<Rightarrow> error + string" where
  "call_closure_alt h now (Closure isContainsBrackets t color) isRequest req res err =
     (let wrap = (\<lambda>s. if isContainsBrackets then CHR ''['' # s @ [CHR '']''] else s) in
      if isRequest then
        (case map_of (REQUEST_alt h now) t of
           None \<Rightarrow> Inl TypeError
         | Some f \<Rightarrow>
             (case f req of
                Inl e \<Rightarrow> Inl e
              | Inr v \<Rightarrow> Inr (chalk h (colorizedFn color) (wrap v))))
      else
        (case map_of (RESPONSE_alt h now) t of
           None \<Rightarrow> Inl TypeError
         | Some f \<Rightarrow>
             (case f req res err of
                Inl e \<Rightarrow> Inl e
              | Inr (Styled v colorized) \<Rightarrow>
                  (case colorized of
                     None \<Rightarrow> Inl TypeError
                   | Some st \<Rightarrow> Inr (chalk h st (wrap v)))
              | Inr (Plain v) \<Rightarrow> Inr (chalk h (colorizedFn color) (wrap v)))))"







section \<open>Properties of the status colour\<close>

lemma ToInt32_id: "- 2147483648 \<le> n \<Longrightarrow> n < 2147483648 \<Longrightarrow> ToInt32 n = n"
proof (cases "0 \<le> n")
  case True
  assume "n < 2147483648"
  with True have "n mod 4294967296 = n" by simp
  with True \<open>n < 2147483648\<close> show ?thesis by (simp add: ToInt32_def Let_def)
next
  case False
  assume a: "- 2147483648 \<le> n"
  with False have "(n + 4294967296) mod 4294967296 = n + 4294967296"
    by (intro mod_pos_pos_trivial) auto
  then have "n mod 4294967296 = n + 4294967296" by simp
  with False a show ?thesis by (simp add: ToInt32_def Let_def)
qed

lemma colorCodes_lookup:
  "(case map_of colorCodes k of Some c \<Rightarrow> Some c | None \<Rightarrow> map_of colorCodes 0) =
     Some (if k = 1 \<or> k = 2 then ''green'' else if k = 3 then ''cyan''
           else if k = 5 then ''red'' else if k = 7 then ''magenta'' else ''yellow'')"
  by (simp add: colorCodes_def)

lemma chalk_lookup:
  "map_of chalkColorsMap ''yellow'' = Some Yellow"
  "map_of chalkColorsMap ''green'' = Some Green"
  "map_of chalkColorsMap ''cyan'' = Some Cyan"
  "map_of chalkColorsMap ''red'' = Some Red"
  "map_of chalkColorsMap ''magenta'' = Some Magenta"
  by (simp_all add: chalkColorsMap_def)

lemma trunc_div_range:
  assumes "- 214748364800 < s" "s < 214748364800"
  shows "- 2147483648 \<le> trunc_div s 100" "trunc_div s 100 < 2147483648"
  using assms unfolding trunc_div_def by (cases "0 \<le> s"; simp; linarith)+

lemma trunc_div_bucket:
  "trunc_div s 100 = 1 \<longleftrightarrow> s div 100 = 1"
  "trunc_div s 100 = 2 \<longleftrightarrow> s div 100 = 2"
  "trunc_div s 100 = 3 \<longleftrightarrow> s div 100 = 3"
  "trunc_div s 100 = 5 \<longleftrightarrow> s div 100 = 5"
  "trunc_div s 100 = 7 \<longleftrightarrow> s div 100 = 7"
  unfolding trunc_div_def by (cases "0 \<le> s"; simp; linarith)+

text \<open>
  Claim C5, as amended.  For every effective status \<open>s\<close> with
  \<open>|s| < 100 * 2^31\<close> (every status a response can carry), the colour of the \<open>:status\<close>
  token is decided by the bucket \<open>floor (s / 100)\<close>: buckets 1 and 2 are green, bucket 3
  is cyan, bucket 4 yellow, bucket 5 red, bucket 7 magenta (the entry \<open>7\<close> of
  \<open>colorCodes\<close>), and every other bucket takes the yellow of entry \<open>0\<close>.
\<close>

theorem status_color_by_bucket:
  assumes "- 214748364800 < effective_status err res"
    and "effective_status err res < 214748364800"
  shows "snd (RESPONSE_status err res) =
    Some (let b = effective_status err res div 100 in
          if b = 1 \<or> b = 2 then Green
          else if b = 3 then Cyan
          else if b = 4 then Yellow
          else if b = 5 then Red
          else if b = 7 then Magenta
          else Yellow)"
proof -
  define s where "s = effective_status err res"
  have "ToInt32 (trunc_div s 100) = trunc_div s 100"
    using assms trunc_div_range [of s] by (simp add: s_def ToInt32_id)
  then show ?thesis
    unfolding RESPONSE_status_def Let_def s_def [symmetric]
    by (simp add: colorCodes_lookup chalk_lookup trunc_div_bucket)
qed

theorem status_color_by_bucket_witness:
  "- 214748364800 < effective_status None \<lparr>statusCode = 200, res_headers = Map.empty\<rparr>
   \<and> effective_status None \<lparr>statusCode = 200, res_headers = Map.empty\<rparr> < 214748364800
   \<and> snd (RESPONSE_status None \<lparr>statusCode = 200, res_headers = Map.empty\<rparr>) = Some Green"
  using status_color_by_bucket [of None "\<lparr>statusCode = 200, res_headers = Map.empty\<rparr>"]
  by (simp add: effective_status_def)

text \<open>
  The claim as written sends bucket 7 to the default yellow; a status of 700 is
  rendered magenta.
\<close>

theorem status_color_bucket7_counterexample:
  "effective_status None \<lparr>statusCode = 700, res_headers = Map.empty\<rparr> div 100 = 7
   \<and> snd (RESPONSE_status None \<lparr>statusCode = 700, res_headers = Map.empty\<rparr>) = Some Magenta
   \<and> snd (RESPONSE_status None \<lparr>statusCode = 700, res_headers = Map.empty\<rparr>) \<noteq> Some Yellow"
  by (simp add: RESPONSE_status_def effective_status_def ToInt32_def trunc_div_def
      colorCodes_def chalkColorsMap_def)

section \<open>Properties of the elapsed time\<close>

lemma digit_char_is_digit: "is_digit (digit_char m)"
proof -
  have "\<forall>k\<in>{..<10}. is_digit (''0123456789'' ! k)"
    by (simp add: is_digit_def lessThan_nat_numeral lessThan_Suc)
  moreover have "m mod 10 \<in> {..<10}" by simp
  ultimately show ?thesis unfolding digit_char_def by blast
qed

lemma digits_all: "\<forall>c\<in>set (digits n). is_digit c"
proof (induction n rule: digits.induct)
  case (1 n)
  show ?case
    using 1 digit_char_is_digit by (subst digits.simps) auto
qed

lemma takeWhile_digits_append:
  assumes "\<forall>c\<in>set ds. is_digit c" and "sfx = [] \<or> \<not> is_digit (hd sfx)"
  shows "takeWhile is_digit (ds @ sfx) = ds"
proof -
  have "takeWhile is_digit sfx = []" using assms(2) by (cases sfx) auto
  with assms(1) show ?thesis by (simp add: takeWhile_append2)
qed

lemma number_replace_short:
  assumes "\<forall>c\<in>set ds. is_digit c" and "length ds \<le> 3"
    and "sfx = [] \<or> \<not> is_digit (hd sfx)"
  shows "number_replace (ds @ sfx) = ds @ number_replace sfx"
proof -
  have tw: "takeWhile is_digit sfx = []" using assms(3) by (cases sfx) auto
  consider "ds = []" | a where "ds = [a]" | a b where "ds = [a, b]"
    | a b c where "ds = [a, b, c]"
    using assms(2) by (cases ds rule: list.exhaust; simp; cases "tl ds"; simp; cases "tl (tl ds)"; simp; cases "tl (tl (tl ds))"; simp)
  then show ?thesis
    using assms(1) tw by cases (auto simp: takeWhile_append2)
qed

lemma number_replace_three:
  assumes "\<forall>c\<in>set ds. is_digit c" and "ds \<noteq> []"
    and "\<forall>c\<in>set t. is_digit c" and "length t = 3"
    and "sfx = [] \<or> \<not> is_digit (hd sfx)"
  shows "number_replace (ds @ t @ sfx) = number_replace ds @ '','' @ t @ number_replace sfx"
  using assms(1,2)
proof (induction ds)
  case Nil
  then show ?case by simp
next
  case (Cons c cs)
  have tw: "takeWhile is_digit (cs @ t @ sfx) = cs @ t"
    using takeWhile_digits_append [of "cs @ t" sfx] Cons.prems assms(3,5) by auto
  have tw': "takeWhile is_digit cs = cs"
    using Cons.prems by (simp add: takeWhile_eq_all_conv)
  show ?case
  proof (cases "cs = []")
    case True
    have "number_replace (t @ sfx) = t @ number_replace sfx"
      using number_replace_short [of t sfx] assms(3,4,5) by simp
    with True Cons.prems tw assms(4) show ?thesis by simp
  next
    case False
    with Cons.IH Cons.prems have "number_replace (cs @ t @ sfx) = number_replace cs @ '','' @ t @ number_replace sfx"
      by simp
    then show ?thesis using assms(4) Cons.prems False by (simp add: tw tw')
  qed
qed


lemma number_replace_group3:
  "\<forall>c\<in>set ds. is_digit c \<Longrightarrow> sfx = [] \<or> \<not> is_digit (hd sfx) \<Longrightarrow>
   number_replace (ds @ sfx) = group3 ds @ number_replace sfx"
proof (induction ds arbitrary: sfx rule: group3.induct)
  case (1 ds)
  show ?case
  proof (cases "length ds \<le> 3")
    case True
    then show ?thesis
      using number_replace_short [of ds sfx] 1 by (subst group3.simps) simp
  next
    case False
    define a where "a = take (length ds - 3) ds"
    define t where "t = drop (length ds - 3) ds"
    have ds: "ds = a @ t" by (simp add: a_def t_def)
    have lt: "length t = 3" using False by (simp add: t_def)
    have ne: "a \<noteq> []" using False by (auto simp: a_def)
    have da: "\<forall>c\<in>set a. is_digit c" and dt: "\<forall>c\<in>set t. is_digit c"
      using "1.prems"(1) ds by auto
    have "number_replace (a @ []) = group3 a @ number_replace []"
      using "1.IH" [OF False, of "[]"] da unfolding a_def by simp
    then have ih: "number_replace a = group3 a" by simp
    have "number_replace (a @ t @ sfx) = number_replace a @ '','' @ t @ number_replace sfx"
      using number_replace_three [OF da ne dt lt "1.prems"(2)] .
    moreover have "group3 ds = group3 a @ '','' @ t"
      using False by (subst group3.simps) (simp add: a_def t_def)
    ultimately show ?thesis using ih ds by simp
  qed
qed

lemma split_on_none: "c \<notin> set s \<Longrightarrow> split_on c s = [s]"
  by (induction s) auto

lemma is_digit_chars: "is_digit c \<Longrightarrow> c \<noteq> CHR ''.''"
  by (auto simp: is_digit_def)

lemma humanize_digits:
  assumes "\<forall>c\<in>set ds. is_digit c" and "sfx = ''ms'' \<or> sfx = ''s''"
  shows "humanize (ds @ sfx) = group3 ds @ sfx"
proof -
  have "CHR ''.'' \<notin> set ds" using assms(1) is_digit_chars by blast
  moreover have "CHR ''.'' \<notin> set sfx" using assms(2) by auto
  ultimately have nd: "CHR ''.'' \<notin> set (ds @ sfx)" by simp
  have "\<not> is_digit CHR ''m''" "\<not> is_digit CHR ''s''" by (simp_all add: is_digit_def)
  then have s: "number_replace sfx = sfx" "sfx = [] \<or> \<not> is_digit (hd sfx)"
    using assms(2) by auto
  show ?thesis
    unfolding humanize_def split_on_none [OF nd]
    using number_replace_group3 [OF assms(1) s(2)] s(1) by simp
qed

text \<open>
  Claim C6, as amended, for the first variant of the module.  The start time stored in
  the header and the clock reading are integers from 0 and below \<open>2^53\<close>, the range
  in which the numbers of the language are exact, and the start time is \<open>d \<ge> 0\<close>
  milliseconds before the clock reading.  The \<open>:response-time\<close> token renders \<open>d\<close>
  with thousands grouping and the suffix \<open>ms\<close> when \<open>d < 10000\<close>, and otherwise \<open>d\<close>
  rounded to whole seconds (halves up), thousands-grouped as well, with the suffix
  \<open>s\<close>.  Its colour is chosen from the millisecond value \<open>d\<close> whichever unit is
  shown: below 50, below 100, or from 100 on.
\<close>

theorem response_time_render:
  assumes "res_headers res ''x-start-time'' = Some (HNum start)"
    and "start \<le> now" and "0 \<le> start" and "now < 9007199254740992"
  shows "RESPONSE_response_time now res =
    (let d = now - start in
       (if d < 10000 then group3 (String_of d) @ ''ms''
        else group3 (String_of ((d + 500) div 1000)) @ ''s'',
        Some (if d < 50 then Green else if d < 100 then Magenta else Red)))"
proof -
  define d where "d = now - start"
  have d0: "0 \<le> d" using assms(2) by (simp add: d_def)
  have r0: "0 \<le> (d + 500) div 1000" using d0 by simp
  have a: "humanize (String_of d @ ''ms'') = group3 (String_of d) @ ''ms''"
    using humanize_digits [of "digits (nat d)" "''ms''"] digits_all d0
    by (simp add: String_of_def)
  have b: "humanize (String_of ((d + 500) div 1000) @ ''s'')
      = group3 (String_of ((d + 500) div 1000)) @ ''s''"
    using humanize_digits [of "digits (nat ((d + 500) div 1000))" "''s''"] digits_all r0
    by (simp add: String_of_def)
  show ?thesis
    using a b
    by (simp add: RESPONSE_response_time_def Number_of_def assms(1) time_def Let_def
        d_def [symmetric] round_div1000_def getColorForTime_def)
qed

theorem response_time_render_witness:
  "res_headers \<lparr>statusCode = 200, res_headers = [''x-start-time'' \<mapsto> HNum 1000]\<rparr>
      ''x-start-time'' = Some (HNum 1000)
   \<and> (1000::int) \<le> 1030 \<and> (0::int) \<le> 1000 \<and> (1030::int) < 9007199254740992
   \<and> RESPONSE_response_time 1030
        \<lparr>statusCode = 200, res_headers = [''x-start-time'' \<mapsto> HNum 1000]\<rparr>
      = (''30ms'', Some Green)"
  using response_time_render
    [of "\<lparr>statusCode = 200, res_headers = [''x-start-time'' \<mapsto> HNum 1000]\<rparr>" 1000 1030]
  by (simp add: String_of_def digits.simps digit_char_def group3.simps)

text \<open>
  The claim as written renders the seconds as the bare rounded number; at
  \<open>d = 1000000\<close> the line shows \<open>1,000s\<close>, not \<open>1000s\<close>.
\<close>

theorem response_time_seconds_counterexample:
  "fst (RESPONSE_response_time 1000000
          \<lparr>statusCode = 200, res_headers = [''x-start-time'' \<mapsto> HNum 0]\<rparr>) = ''1,000s''
   \<and> String_of (round_div1000 (1000000 - 0)) @ ''s'' = ''1000s''"
  by (simp add: RESPONSE_response_time_def Number_of_def time_def humanize_def
      String_of_def round_div1000_def digits.simps digit_char_def is_digit_def)

section \<open>Properties of the client address\<close>

lemma ip_dash: "\<not> ip (Some ''-'')"
  by code_simp

lemma find_ip_not_dash: "List.find (\<lambda>e. ip (Some e)) es = Some e \<Longrightarrow> e \<noteq> ''-''"
  using ip_dash by (auto simp: find_Some_iff)

lemma getForwardedFor_find:
  "getForwardedFor v =
     (case (case v of None \<Rightarrow> None
            | Some s \<Rightarrow> List.find (\<lambda>e. ip (Some e)) (map strip_port (split_on CHR '','' s))) of
        Some e \<Rightarrow> e
      | None \<Rightarrow> ''-'')"
proof (cases v)
  case None
  then show ?thesis by (simp add: getForwardedFor_def)
next
  case (Some s)
  have "\<not> ip (Some [])" by (simp add: ip_def)
  then have "List.find (\<lambda>e. ip (Some e)) (map strip_port (split_on CHR '','' [])) = None"
    by (simp add: strip_port_def trim_def)
  with Some show ?thesis by (simp add: getForwardedFor_def)
qed

lemma getIp_find:
  assumes "headers req = Some hs"
  shows "getIp req =
    (case List.find ip
       [hs ''x-client-ip'',
        (case hs ''x-forwarded-for'' of
           None \<Rightarrow> None
         | Some s \<Rightarrow> List.find (\<lambda>e. ip (Some e)) (map strip_port (split_on CHR '','' s))),
        hs ''x-real-ip'',
        hs ''x-forwarded'',
        hs ''forwarded-for'',
        (case socket req of None \<Rightarrow> None | Some k \<Rightarrow> remoteAddress k),
        (case connection req of None \<Rightarrow> None | Some k \<Rightarrow> remoteAddress k)] of
       Some (Some a) \<Rightarrow> a
     | _ \<Rightarrow> ''-'')"
proof -
  define f where "f = (case hs ''x-forwarded-for'' of
           None \<Rightarrow> None
         | Some s \<Rightarrow> List.find (\<lambda>e. ip (Some e)) (map strip_port (split_on CHR '','' s)))"
  have g: "getForwardedFor (hs ''x-forwarded-for'') = (case f of Some e \<Rightarrow> e | None \<Rightarrow> ''-'')"
    unfolding f_def by (rule getForwardedFor_find)
  have fs: "ip f \<and> e \<noteq> ''-''" if "f = Some e" for e
  proof -
    from that obtain s where "List.find (\<lambda>e. ip (Some e)) (map strip_port (split_on CHR '','' s)) = Some e"
      unfolding f_def by (auto split: option.splits)
    then have "ip (Some e)" by (auto simp: find_Some_iff)
    with that ip_dash show ?thesis by auto
  qed
  have fn: "\<not> ip f" if "f = None" using that by (simp add: ip_def)
  have nn: "\<not> ip None" by (simp add: ip_def)
  show ?thesis
  proof (cases f)
    case None
    with fn g nn show ?thesis
      unfolding getIp_def assms f_def [symmetric] accepted_def Let_def
      by (simp split: option.splits)
  next
    case (Some e)
    with fs [OF Some] g nn show ?thesis
      unfolding getIp_def assms f_def [symmetric] accepted_def Let_def
      by (simp split: option.splits)
  qed
qed


lemma split_on_ne: "split_on c s \<noteq> []"
  by (induction s) (auto split: list.splits)

lemma split_on_length: "length (split_on c s) = Suc (length (filter ((=) c) s))"
  by (induction s) (auto split: list.splits simp: split_on_ne)

lemma split_on_hd: "split_on c s = a # r \<Longrightarrow> a = takeWhile (\<lambda>d. d \<noteq> c) s"
  by (induction s arbitrary: a r) (auto split: list.splits if_splits simp: split_on_ne)

lemma strip_port_one_colon:
  "strip_port v =
     (let e = trim v in
      if length (filter ((=) CHR '':'') e) = 1 then takeWhile (\<lambda>c. c \<noteq> CHR '':'') e else e)"
proof -
  define e where "e = trim v"
  define n where "n = length (filter ((=) CHR '':'') e)"
  have len: "length (split_on CHR '':'' e) = Suc n"
    by (simp add: n_def split_on_length)
  have mem: "CHR '':'' \<in> set e \<longleftrightarrow> 0 < n"
    by (auto simp: n_def filter_empty_conv)
  show ?thesis
  proof (cases "n = 1")
    case True
    with len obtain a b where ab: "split_on CHR '':'' e = [a, b]"
      by (cases "split_on CHR '':'' e" rule: list.exhaust; simp; cases "tl (split_on CHR '':'' e)"; auto)
    with split_on_hd have "a = takeWhile (\<lambda>d. d \<noteq> CHR '':'') e" by fastforce
    with True ab mem show ?thesis
      unfolding strip_port_def Let_def e_def [symmetric] n_def [symmetric] by simp
  next
    case False
    with len have "length (split_on CHR '':'' e) \<noteq> 2" by simp
    then have "(case split_on CHR '':'' e of [a, b] \<Rightarrow> a | _ \<Rightarrow> e) = e"
      by (auto split: list.splits)
    with False show ?thesis
      unfolding strip_port_def Let_def e_def [symmetric] n_def [symmetric] by simp
  qed
qed

text \<open>
  Claim C8.  For a request with its header object, the client address is the first of
  these candidates that validates as an IPv4 or IPv6 literal, in this order: the header
  \<open>x-client-ip\<close>; the first entry of the comma-separated header \<open>x-forwarded-for\<close>
  that validates once it is trimmed and its port is cut off; the headers \<open>x-real-ip\<close>,
  \<open>x-forwarded\<close> and \<open>forwarded-for\<close>; the address of the socket; the address of the
  deprecated connection; and it is \<open>-\<close> when none validates.  The port is cut off
  exactly when the trimmed entry holds one colon.  The witness is the request of the
  claim, whose header \<open>x-forwarded-for\<close> is \<open>not-an-ip, 10.0.0.5:1234\<close>.
\<close>

theorem getIp_priority:
  assumes "headers req = Some hs"
  shows "getIp req =
    (case List.find ip
       [hs ''x-client-ip'',
        (case hs ''x-forwarded-for'' of
           None \<Rightarrow> None
         | Some s \<Rightarrow> List.find (\<lambda>e. ip (Some e)) (map strip_port (split_on CHR '','' s))),
        hs ''x-real-ip'',
        hs ''x-forwarded'',
        hs ''forwarded-for'',
        (case socket req of None \<Rightarrow> None | Some k \<Rightarrow> remoteAddress k),
        (case connection req of None \<Rightarrow> None | Some k \<Rightarrow> remoteAddress k)] of
       Some (Some a) \<Rightarrow> a
     | _ \<Rightarrow> ''-'')
   \<and> (\<forall>v. strip_port v =
         (let e = trim v in
          if length (filter ((=) CHR '':'') e) = 1 then takeWhile (\<lambda>c. c \<noteq> CHR '':'') e
          else e))"
  using getIp_find [OF assms] strip_port_one_colon by blast

theorem getIp_priority_witness:
  "headers \<lparr>req_method = ''GET'', originalUrl = ''/'', url = ''/'',
      headers = Some [''x-forwarded-for'' \<mapsto> ''not-an-ip, 10.0.0.5:1234''],
      socket = None, connection = None, httpVersionMajor = 1, httpVersionMinor = 1,
      protocol = ''http''\<rparr>
     = Some [''x-forwarded-for'' \<mapsto> ''not-an-ip, 10.0.0.5:1234'']
   \<and> getIp \<lparr>req_method = ''GET'', originalUrl = ''/'', url = ''/'',
      headers = Some [''x-forwarded-for'' \<mapsto> ''not-an-ip, 10.0.0.5:1234''],
      socket = None, connection = None, httpVersionMajor = 1, httpVersionMinor = 1,
      protocol = ''http''\<rparr> = ''10.0.0.5''"
proof -
  have e1: "ip (Some ''not-an-ip'') = False" by code_simp
  have e2: "ip (Some ''10.0.0.5'') = True" by code_simp
  have e3: "strip_port ''not-an-ip'' = ''not-an-ip''"
    "strip_port '' 10.0.0.5:1234'' = ''10.0.0.5''" by code_simp+
  have e4: "ip None = False" by (simp add: ip_def)
  show ?thesis
    using getIp_priority
      [of "\<lparr>req_method = ''GET'', originalUrl = ''/'', url = ''/'',
         headers = Some [''x-forwarded-for'' \<mapsto> ''not-an-ip, 10.0.0.5:1234''],
         socket = None, connection = None, httpVersionMajor = 1, httpVersionMinor = 1,
         protocol = ''http''\<rparr>" "[''x-forwarded-for'' \<mapsto> ''not-an-ip, 10.0.0.5:1234'']"]
    by (simp add: e1 e2 e3 e4)
qed

section \<open>Properties of the compiler and the renders\<close>











































text \<open>
  Claim C1 at a concrete input: a plan compiled from \<open>:incoming :method\<close>, rendered for
  two exchanges with the same request, response, error, event and clock.  Each render
  writes the banner into the shared template (and the response render writes the
  connector at an index that the banner has shifted), so the second pair of lines is
  not the first pair.
\<close>

theorem render_twice_differs:
  "(case fst (compile plain_host Map.empty '':incoming :method'') of
      Inl e \<Rightarrow> False
    | Inr p0 \<Rightarrow>
        (case logRequest plain_host 0 p0 get_users ok_response None of
           Inl e \<Rightarrow> False
         | Inr (line1, p1) \<Rightarrow>
        (case logResponse plain_host 0 p1 get_users ok_response None ''finish'' of
           Inl e \<Rightarrow> False
         | Inr (line2, p2) \<Rightarrow>
        (case logRequest plain_host 0 p2 get_users ok_response None of
           Inl e \<Rightarrow> False
         | Inr (line3, p3) \<Rightarrow>
        (case logResponse plain_host 0 p3 get_users ok_response None ''finish'' of
           Inl e \<Rightarrow> False
         | Inr (line4, p4) \<Rightarrow>
             line1 = '' HTTP   INCOMING  <-- GET''
             \<and> line2 = '' HTTP   OUTGOING  --> GET''
             \<and> line3 = '' HTTP   HTTP   INCOMING  <-- GET''
             \<and> line4 = '' HTTP   HTTP  --> --> GET''
             \<and> requestOutput p0 = ['' INCOMING '', ''<--'', ''%s'']
             \<and> requestOutput p1 = ['' HTTP '', '' INCOMING '', ''<--'', ''%s'']
             \<and> responseOutput p0 = ['' OUTGOING '', ''-->'', ''%s'']
             \<and> responseOutput p2 = ['' HTTP '', '' OUTGOING '', ''-->'', ''%s'']
             \<and> responseOutput p4 = ['' HTTP '', '' HTTP '', ''-->'', ''-->'', ''%s''])))))"
  by code_simp

section \<open>Properties of the middleware\<close>

lemma emit_first:
  assumes "ex_listeners ex = [(''finish'', ''finish''), (''close'', ''close'')]"
    and "ev = ''finish'' \<or> ev = ''close''"
  shows "emit h t req ev ex =
    (case logResponse h t (ex_plan ex) req (ex_res ex) None ev of
       Inl e \<Rightarrow> Inl e
     | Inr (line, p) \<Rightarrow>
         Inr (ex\<lparr>ex_plan := p, ex_listeners := [], ex_printed := ex_printed ex @ [line]\<rparr>))"
  using assms
  by (auto simp: emit_def done_event_def removeListener_def Let_def split: sum.splits)

lemma emit_none: "ex_listeners ex = [] \<Longrightarrow> emit h t req ev ex = Inr ex"
  by (simp add: emit_def)

lemma handler_listeners:
  assumes "ex_listeners ex0 = []" and "handler h t0 req ex0 = Inr ex1"
  shows "ex_listeners ex1 = [(''finish'', ''finish''), (''close'', ''close'')]"
  using assms by (auto simp: handler_def Let_def split: sum.splits)

text \<open>
  Claim C7.  After the middleware ran on an exchange that had no listener of its own,
  let the two completion signals fire in either order, the response changed in between
  as the application likes.  The outcome is the outcome of one response render with
  the name of the signal that fired first: one more printed line, no listener left;
  the second signal changes nothing.
\<close>

theorem response_rendered_once:
  assumes "ex_listeners ex0 = []" and "handler h t0 req ex0 = Inr ex1"
    and "first = ''finish'' \<and> second = ''close'' \<or> first = ''close'' \<and> second = ''finish''"
  shows "(case emit h ta req first (ex1\<lparr>ex_res := r\<rparr>) of
            Inl e \<Rightarrow> Inl e
          | Inr ex2 \<Rightarrow> emit h tb req second ex2)
       = (case logResponse h ta (ex_plan ex1) req r None first of
            Inl e \<Rightarrow> Inl e
          | Inr (line, p) \<Rightarrow>
              Inr (ex1\<lparr>ex_res := r, ex_plan := p, ex_listeners := [],
                      ex_printed := ex_printed ex1 @ [line]\<rparr>))"
proof -
  have l: "ex_listeners (ex1\<lparr>ex_res := r\<rparr>) = [(''finish'', ''finish''), (''close'', ''close'')]"
    using handler_listeners [OF assms(1,2)] by simp
  have e: "first = ''finish'' \<or> first = ''close''" using assms(3) by auto
  show ?thesis
    unfolding emit_first [OF l e]
    by (auto simp: emit_none split: sum.splits)
qed

lemma w_handler:
  "(case handler plain_host 1000 get_users
           \<lparr>ex_plan = \<lparr>requestOutput = ['' INCOMING '', ''<--'', ''%s''],
                       responseOutput = ['' OUTGOING '', ''-->'', ''%s''],
                       requstArgs = [Closure False '':method'' (Name ''whiteBright'')],
                       responseArgs = [Closure False '':method'' (Name ''whiteBright'')],
                       whereTheResponseIndicatorIs = 1\<rparr>,
            ex_res = ok_response, ex_listeners = [], ex_printed = []\<rparr> of
      Inl e \<Rightarrow> False
    | Inr x \<Rightarrow>
        ex_plan x = \<lparr>requestOutput = ['' HTTP '', '' INCOMING '', ''<--'', ''%s''],
                     responseOutput = ['' OUTGOING '', ''-->'', ''%s''],
                     requstArgs = [Closure False '':method'' (Name ''whiteBright'')],
                     responseArgs = [Closure False '':method'' (Name ''whiteBright'')],
                     whereTheResponseIndicatorIs = 1\<rparr>
        \<and> ex_printed x = ['' HTTP   INCOMING  <-- GET'']
        \<and> statusCode (ex_res x) = 200)"
  by code_simp

lemma w_response_close:
  "statusCode r = 200 \<Longrightarrow>
   logResponse plain_host 1010
     \<lparr>requestOutput = ['' HTTP '', '' INCOMING '', ''<--'', ''%s''],
      responseOutput = ['' OUTGOING '', ''-->'', ''%s''],
      requstArgs = [Closure False '':method'' (Name ''whiteBright'')],
      responseArgs = [Closure False '':method'' (Name ''whiteBright'')],
      whereTheResponseIndicatorIs = 1\<rparr>
     get_users r None ''close''
   = Inr ('' HTTP   OUTGOING  -x- GET'',
          \<lparr>requestOutput = ['' HTTP '', '' INCOMING '', ''<--'', ''%s''],
           responseOutput = ['' HTTP '', '' OUTGOING '', ''-x-'', ''%s''],
           requstArgs = [Closure False '':method'' (Name ''whiteBright'')],
           responseArgs = [Closure False '':method'' (Name ''whiteBright'')],
           whereTheResponseIndicatorIs = 1\<rparr>)"
proof -
  have up: "toUpperCase ''http'' = ''HTTP''" by code_simp
  assume "statusCode r = 200"
  then show ?thesis
    by (simp add: logResponse_def RESPONSE_def plain_host_def get_users_def upstream_def
        array_set_def banner_def up util_format_def colorizedFn_def chalkColorsMap_def Let_def)
qed

theorem response_rendered_once_witness:
  "ex_listeners \<lparr>ex_plan = \<lparr>requestOutput = ['' INCOMING '', ''<--'', ''%s''],
                       responseOutput = ['' OUTGOING '', ''-->'', ''%s''],
                       requstArgs = [Closure False '':method'' (Name ''whiteBright'')],
                       responseArgs = [Closure False '':method'' (Name ''whiteBright'')],
                       whereTheResponseIndicatorIs = 1\<rparr>,
            ex_res = ok_response, ex_listeners = [], ex_printed = []\<rparr> = []
   \<and> (\<exists>ex1. handler plain_host 1000 get_users
           \<lparr>ex_plan = \<lparr>requestOutput = ['' INCOMING '', ''<--'', ''%s''],
                       responseOutput = ['' OUTGOING '', ''-->'', ''%s''],
                       requstArgs = [Closure False '':method'' (Name ''whiteBright'')],
                       responseArgs = [Closure False '':method'' (Name ''whiteBright'')],
                       whereTheResponseIndicatorIs = 1\<rparr>,
            ex_res = ok_response, ex_listeners = [], ex_printed = []\<rparr> = Inr ex1
        \<and> (case (case emit plain_host 1010 get_users ''close'' ex1 of
                    Inl e \<Rightarrow> Inl e
                  | Inr ex2 \<Rightarrow> emit plain_host 1020 get_users ''finish'' ex2) of
              Inl e \<Rightarrow> False
            | Inr ex3 \<Rightarrow>
                ex_printed ex3 = ['' HTTP   INCOMING  <-- GET'', '' HTTP   OUTGOING  -x- GET'']
                \<and> ex_listeners ex3 = []))"
proof -
  define ex0 where "ex0 = \<lparr>ex_plan = \<lparr>requestOutput = ['' INCOMING '', ''<--'', ''%s''],
                       responseOutput = ['' OUTGOING '', ''-->'', ''%s''],
                       requstArgs = [Closure False '':method'' (Name ''whiteBright'')],
                       responseArgs = [Closure False '':method'' (Name ''whiteBright'')],
                       whereTheResponseIndicatorIs = 1\<rparr>,
            ex_res = ok_response, ex_listeners = [], ex_printed = []\<rparr>"
  have l0: "ex_listeners ex0 = []" by (simp add: ex0_def)
  obtain ex1 where h: "handler plain_host 1000 get_users ex0 = Inr ex1"
    and p1: "ex_plan ex1 = \<lparr>requestOutput = ['' HTTP '', '' INCOMING '', ''<--'', ''%s''],
                     responseOutput = ['' OUTGOING '', ''-->'', ''%s''],
                     requstArgs = [Closure False '':method'' (Name ''whiteBright'')],
                     responseArgs = [Closure False '':method'' (Name ''whiteBright'')],
                     whereTheResponseIndicatorIs = 1\<rparr>"
    and p2: "ex_printed ex1 = ['' HTTP   INCOMING  <-- GET'']"
    and p3: "statusCode (ex_res ex1) = 200"
    using w_handler unfolding ex0_def [symmetric]
    by (cases "handler plain_host 1000 get_users ex0") auto
  have "(case emit plain_host 1010 get_users ''close'' (ex1\<lparr>ex_res := ex_res ex1\<rparr>) of
            Inl e \<Rightarrow> Inl e
          | Inr ex2 \<Rightarrow> emit plain_host 1020 get_users ''finish'' ex2)
       = (case logResponse plain_host 1010 (ex_plan ex1) get_users (ex_res ex1) None ''close'' of
            Inl e \<Rightarrow> Inl e
          | Inr (line, p) \<Rightarrow>
              Inr (ex1\<lparr>ex_res := ex_res ex1, ex_plan := p, ex_listeners := [],
                      ex_printed := ex_printed ex1 @ [line]\<rparr>))"
    using response_rendered_once [OF l0 h, where first = "''close''" and second = "''finish''"
        and ta = 1010 and r = "ex_res ex1" and tb = 1020]
    by simp
  then have "(case (case emit plain_host 1010 get_users ''close'' ex1 of
                    Inl e \<Rightarrow> Inl e
                  | Inr ex2 \<Rightarrow> emit plain_host 1020 get_users ''finish'' ex2) of
              Inl e \<Rightarrow> False
            | Inr ex3 \<Rightarrow>
                ex_printed ex3 = ['' HTTP   INCOMING  <-- GET'', '' HTTP   OUTGOING  -x- GET'']
                \<and> ex_listeners ex3 = [])"
    using w_response_close [OF p3] p1 p2 by simp
  with l0 h show ?thesis unfolding ex0_def by blast
qed

text \<open>
  Claim C10.  The middleware calls the request render and the response render with a
  null error.  With a null error the connector is chosen from the event and the status
  code of the response alone, and the status that the \<open>:status\<close> and
  \<open>:content-length\<close> tokens read is the status code of the response, or 404 when there
  is none.
\<close>

theorem middleware_null_error:
  assumes "ex_listeners ex0 = []" and "handler h start req ex0 = Inr ex1"
    and "ev = ''finish'' \<or> ev = ''close''"
  shows "handler h start req ex0 =
      (case logRequest h start (ex_plan ex0) req
              ((ex_res ex0)\<lparr>res_headers := (res_headers (ex_res ex0))(''x-start-time'' \<mapsto> HNum start)\<rparr>)
              None of
         Inl e \<Rightarrow> Inl e
       | Inr (line, p) \<Rightarrow>
           Inr (ex0\<lparr>ex_plan := p,
                   ex_res := (ex_res ex0)\<lparr>res_headers :=
                               (res_headers (ex_res ex0))(''x-start-time'' \<mapsto> HNum start)\<rparr>,
                   ex_listeners := [(''finish'', ''finish''), (''close'', ''close'')],
                   ex_printed := ex_printed ex0 @ [line]\<rparr>))
   \<and> emit h ta req ev (ex1\<lparr>ex_res := r\<rparr>) =
      (case logResponse h ta (ex_plan ex1) req r None ev of
         Inl e \<Rightarrow> Inl e
       | Inr (line, p) \<Rightarrow>
           Inr (ex1\<lparr>ex_res := r, ex_plan := p, ex_listeners := [],
                   ex_printed := ex_printed ex1 @ [line]\<rparr>))
   \<and> upstream h None ev r =
      (if ev = ''close'' then chalk h Yellow ''-x-''
       else if 500 \<le> statusCode r then chalk h Red ''xxx''
       else if statusCode r = 404 then chalk h Cyan ''-X-''
       else chalk h Gray ''-->'')
   \<and> effective_status None r = (if statusCode r \<noteq> 0 then statusCode r else 404)
   \<and> fst (RESPONSE_status None r) = String_of (if statusCode r \<noteq> 0 then statusCode r else 404)"
proof -
  have l: "ex_listeners (ex1\<lparr>ex_res := r\<rparr>) = [(''finish'', ''finish''), (''close'', ''close'')]"
    using handler_listeners [OF assms(1,2)] by simp
  have a: "handler h start req ex0 =
      (case logRequest h start (ex_plan ex0) req
              ((ex_res ex0)\<lparr>res_headers := (res_headers (ex_res ex0))(''x-start-time'' \<mapsto> HNum start)\<rparr>)
              None of
         Inl e \<Rightarrow> Inl e
       | Inr (line, p) \<Rightarrow>
           Inr (ex0\<lparr>ex_plan := p,
                   ex_res := (ex_res ex0)\<lparr>res_headers :=
                               (res_headers (ex_res ex0))(''x-start-time'' \<mapsto> HNum start)\<rparr>,
                   ex_listeners := [(''finish'', ''finish''), (''close'', ''close'')],
                   ex_printed := ex_printed ex0 @ [line]\<rparr>))"
    using assms(1) by (simp add: handler_def Let_def split: sum.splits)
  have b: "emit h ta req ev (ex1\<lparr>ex_res := r\<rparr>) =
      (case logResponse h ta (ex_plan ex1) req r None ev of
         Inl e \<Rightarrow> Inl e
       | Inr (line, p) \<Rightarrow>
           Inr (ex1\<lparr>ex_res := r, ex_plan := p, ex_listeners := [],
                   ex_printed := ex_printed ex1 @ [line]\<rparr>))"
    using emit_first [OF l assms(3), of h ta req] by (simp split: sum.splits)
  have c: "upstream h None ev r =
      (if ev = ''close'' then chalk h Yellow ''-x-''
       else if 500 \<le> statusCode r then chalk h Red ''xxx''
       else if statusCode r = 404 then chalk h Cyan ''-X-''
       else chalk h Gray ''-->'')"
    by (simp add: upstream_def)
  have d: "effective_status None r = (if statusCode r \<noteq> 0 then statusCode r else 404)"
    by (simp add: effective_status_def)
  have e: "fst (RESPONSE_status None r) = String_of (if statusCode r \<noteq> 0 then statusCode r else 404)"
    by (simp add: RESPONSE_status_def Let_def effective_status_def)
  from a b c d e show ?thesis by blast
qed

theorem middleware_null_error_witness:
  "ex_listeners \<lparr>ex_plan = \<lparr>requestOutput = ['' INCOMING '', ''<--'', ''%s''],
                       responseOutput = ['' OUTGOING '', ''-->'', ''%s''],
                       requstArgs = [Closure False '':method'' (Name ''whiteBright'')],
                       responseArgs = [Closure False '':method'' (Name ''whiteBright'')],
                       whereTheResponseIndicatorIs = 1\<rparr>,
            ex_res = ok_response, ex_listeners = [], ex_printed = []\<rparr> = []
   \<and> (\<exists>ex1. handler plain_host 1000 get_users
           \<lparr>ex_plan = \<lparr>requestOutput = ['' INCOMING '', ''<--'', ''%s''],
                       responseOutput = ['' OUTGOING '', ''-->'', ''%s''],
                       requstArgs = [Closure False '':method'' (Name ''whiteBright'')],
                       responseArgs = [Closure False '':method'' (Name ''whiteBright'')],
                       whereTheResponseIndicatorIs = 1\<rparr>,
            ex_res = ok_response, ex_listeners = [], ex_printed = []\<rparr> = Inr ex1)
   \<and> upstream plain_host None ''finish'' \<lparr>statusCode = 500, res_headers = Map.empty\<rparr> = ''xxx''
   \<and> effective_status None \<lparr>statusCode = 500, res_headers = Map.empty\<rparr> = 500
   \<and> fst (RESPONSE_status None \<lparr>statusCode = 0, res_headers = Map.empty\<rparr>) = ''404''"
proof -
  define ex0 where "ex0 = \<lparr>ex_plan = \<lparr>requestOutput = ['' INCOMING '', ''<--'', ''%s''],
                       responseOutput = ['' OUTGOING '', ''-->'', ''%s''],
                       requstArgs = [Closure False '':method'' (Name ''whiteBright'')],
                       responseArgs = [Closure False '':method'' (Name ''whiteBright'')],
                       whereTheResponseIndicatorIs = 1\<rparr>,
            ex_res = ok_response, ex_listeners = [], ex_printed = []\<rparr>"
  have l0: "ex_listeners ex0 = []" by (simp add: ex0_def)
  obtain ex1 where h: "handler plain_host 1000 get_users ex0 = Inr ex1"
    using w_handler unfolding ex0_def [symmetric]
    by (cases "handler plain_host 1000 get_users ex0") auto
  have s: "String_of 404 = ''404''" by code_simp
  have "upstream plain_host None ''finish'' \<lparr>statusCode = 500, res_headers = Map.empty\<rparr> = ''xxx''"
    "effective_status None \<lparr>statusCode = 500, res_headers = Map.empty\<rparr> = 500"
    using middleware_null_error [OF l0 h, where ev = "''finish''"
        and r = "\<lparr>statusCode = 500, res_headers = Map.empty\<rparr>"]
    by (simp_all add: plain_host_def)
  moreover have "fst (RESPONSE_status None \<lparr>statusCode = 0, res_headers = Map.empty\<rparr>) = ''404''"
    using middleware_null_error [OF l0 h, where ev = "''finish''"
        and r = "\<lparr>statusCode = 0, res_headers = Map.empty\<rparr>"]
    by (simp add: s)
  ultimately show ?thesis using l0 h unfolding ex0_def by blast
qed

section \<open>The connector slot when \<open>:incoming\<close> is absent\<close>






section \<open>The date token\<close>

lemma digits_small: "n < 10 \<Longrightarrow> digits n = [digit_char n]"
  by (subst digits.simps) simp

lemma digits_step: "10 \<le> n \<Longrightarrow> digits n = digits (n div 10) @ [digit_char n]"
  by (subst digits.simps) simp

lemma digit_char_zero: "digit_char 0 = CHR ''0''"
  by (simp add: digit_char_def)

lemma pad2_two_digits:
  assumes "n < 100"
  shows "pad2 n = two_digits n"
proof (cases "n < 10")
  case True
  then show ?thesis
    by (simp add: pad2_def two_digits_def digits_small digit_char_zero)
next
  case False
  then have "digits n = [digit_char (n div 10), digit_char n]"
    using assms by (simp add: digits_step digits_small)
  then show ?thesis by (simp add: pad2_def two_digits_def)
qed

lemma String_of_year:
  assumes "1000 \<le> y" and "y \<le> 9999"
  shows "String_of y = four_digits (nat y)"
proof -
  define n where "n = nat y"
  have n: "1000 \<le> n" "n < 10000" using assms by (simp_all add: n_def)
  have e: "n div 10 div 10 = n div 100" "n div 100 div 10 = n div 1000"
    by (simp_all add: div_mult2_eq [symmetric])
  have d: "digits (n div 1000) = [digit_char (n div 1000)]"
    using n by (simp add: digits_small)
  have "digits (n div 100) = digits (n div 100 div 10) @ [digit_char (n div 100)]"
    using n by (simp add: digits_step)
  then have c: "digits (n div 100) = [digit_char (n div 1000), digit_char (n div 100)]"
    unfolding e d by simp
  have "digits (n div 10) = digits (n div 10 div 10) @ [digit_char (n div 10)]"
    using n by (simp add: digits_step)
  then have b: "digits (n div 10)
      = [digit_char (n div 1000), digit_char (n div 100), digit_char (n div 10)]"
    unfolding e c by simp
  have "digits n = digits (n div 10) @ [digit_char n]" using n by (simp add: digits_step)
  then have "digits n = four_digits n"
    unfolding b by (simp add: four_digits_def)
  then show ?thesis using assms by (simp add: String_of_def n_def)
qed

lemma date_apache:
  assumes "utcDate d < 100" and "utcMonth d < 12" and "1000 \<le> utcFullYear d"
    and "utcFullYear d \<le> 9999" and "utcHours d < 100" and "utcMinutes d < 100"
    and "utcSeconds d < 100"
  shows "date d = apache_date d"
  using assms
  by (simp add: date_def apache_date_def pad2_two_digits String_of_year MONTHS_def)

lemma MONTHS_three: "m < 12 \<Longrightarrow> length (MONTHS ! m) = 3"
proof -
  have "\<forall>k\<in>{..<12}. length (MONTHS ! k) = 3"
    by (simp add: MONTHS_def lessThan_nat_numeral lessThan_Suc)
  then show "m < 12 \<Longrightarrow> length (MONTHS ! m) = 3" by simp
qed
text \<open>
  Claim C4, as amended.  In the second variant of the module the value of \<open>:date\<close>,
  in both phases, is the string of the common log on the calendar fields that the
  \<open>Date\<close> reports in UTC: day, month abbreviation of three letters, year, hour, minute
  and second, the day and the time fields in two digits, for every instant whose fields
  are in their ranges and whose year has four digits; the string has 26 characters.
  In the first variant the value of \<open>:date\<close> is the date and the time in the words of
  the locale, joined by a space, trimmed, every run of white space made one space.
\<close>

theorem date_token_rendering:
  assumes "1 \<le> utcDate (getUTC h now)" and "utcDate (getUTC h now) \<le> 31"
    and "utcMonth (getUTC h now) < 12"
    and "1000 \<le> utcFullYear (getUTC h now)" and "utcFullYear (getUTC h now) \<le> 9999"
    and "utcHours (getUTC h now) < 24" and "utcMinutes (getUTC h now) < 60"
    and "utcSeconds (getUTC h now) < 60"
  shows "call_closure_alt h now (interpolate_alt '':date'' color) True req res err
           = Inr (chalk h (colorizedFn color) (apache_date (getUTC h now)))
     \<and> call_closure_alt h now (interpolate_alt '':date'' color) False req res err
           = Inr (chalk h (colorizedFn color) (apache_date (getUTC h now)))
     \<and> length (apache_date (getUTC h now)) = 26
     \<and> length (MONTHS ! utcMonth (getUTC h now)) = 3
     \<and> call_closure h now (interpolate '':date'' color) True req res err
           = Inr (chalk h (colorizedFn color)
                    (collapse_spaces
                       (trim (toLocaleDateString h now @ '' '' @ toLocaleTimeString h now))))
     \<and> call_closure h now (interpolate '':date'' color) False req res err
           = Inr (chalk h (colorizedFn color)
                    (collapse_spaces
                       (trim (toLocaleDateString h now @ '' '' @ toLocaleTimeString h now))))"
proof -
  have d: "date (getUTC h now) = apache_date (getUTC h now)"
    using assms by (intro date_apache) simp_all
  have i: "interpolate_alt '':date'' color = Closure False '':date'' color"
  proof -
    have "\<not> re_test False token_re '':date''" by code_simp
    then show ?thesis by (simp add: interpolate_alt_def)
  qed
  have j: "interpolate '':date'' color = Closure False '':date'' color"
  proof -
    have "strip_brackets '':date'' = '':date''" by code_simp
    then show ?thesis by (simp add: interpolate_def)
  qed
  have a1: "call_closure_alt h now (Closure False '':date'' color) True req res err
           = Inr (chalk h (colorizedFn color) (date (getUTC h now)))"
    by (simp add: REQUEST_alt_def)
  have a2: "call_closure_alt h now (Closure False '':date'' color) False req res err
           = Inr (chalk h (colorizedFn color) (date (getUTC h now)))"
    by (simp add: RESPONSE_alt_def)
  have b1: "call_closure h now (Closure False '':date'' color) True req res err
           = Inr (chalk h (colorizedFn color) (timestamp h now))"
    by (simp add: REQUEST_def)
  have b2: "call_closure h now (Closure False '':date'' color) False req res err
           = Inr (chalk h (colorizedFn color) (timestamp h now))"
    by (simp add: RESPONSE_def)
  have l: "length (apache_date (getUTC h now)) = 26"
    using assms(3) by (simp add: apache_date_def two_digits_def four_digits_def MONTHS_three)
  show ?thesis
    using a1 a2 b1 b2 l d assms(3) unfolding i j
    by (simp add: timestamp_def MONTHS_three)
qed
text \<open>
  The claim as written gives the format of the common log to every value of \<open>:date\<close>;
  on a host of the locale \<open>en-US\<close> the first variant renders the instant 0 as
  \<open>1/1/1970 12:00:00 AM\<close>, where the common log has \<open>01/Jan/1970:00:00:00 +0000\<close>.
\<close>

theorem locale_date_counterexample:
  "apache_date (getUTC plain_host 0) = ''01/Jan/1970:00:00:00 +0000''
   \<and> (case fst (compile plain_host Map.empty '':date'') of
        Inl e \<Rightarrow> False
      | Inr p \<Rightarrow>
          (case logRequest plain_host 0 p get_users ok_response None of
             Inl e \<Rightarrow> False
           | Inr (line, p') \<Rightarrow> line = '' HTTP  <-- 1/1/1970 12:00:00 AM''))"
  by code_simp
theorem date_token_rendering_witness:
  "1 \<le> utcDate (getUTC plain_host 0) \<and> utcDate (getUTC plain_host 0) \<le> 31
   \<and> utcMonth (getUTC plain_host 0) < 12
   \<and> 1000 \<le> utcFullYear (getUTC plain_host 0) \<and> utcFullYear (getUTC plain_host 0) \<le> 9999
   \<and> utcHours (getUTC plain_host 0) < 24 \<and> utcMinutes (getUTC plain_host 0) < 60
   \<and> utcSeconds (getUTC plain_host 0) < 60
   \<and> call_closure_alt plain_host 0 (interpolate_alt '':date'' (Name ''gray'')) True
        get_users ok_response None = Inr ''01/Jan/1970:00:00:00 +0000''"
proof -
  have f: "getUTC plain_host 0 = \<lparr>utcFullYear = 1970, utcMonth = 0, utcDate = 1, utcHours = 0,
                        utcMinutes = 0, utcSeconds = 0\<rparr>"
    by (simp add: plain_host_def)
  have v: "apache_date (getUTC plain_host 0) = ''01/Jan/1970:00:00:00 +0000''" by code_simp
  have c: "chalk plain_host st s = s" for st s by (simp add: plain_host_def)
  from date_token_rendering [of plain_host 0 "Name ''gray''" get_users ok_response None]
  show ?thesis unfolding v c by (simp add: f)
qed

section \<open>The colour of the elapsed time in the second variant\<close>

text \<open>
  The second variant reads the time back from the rendered string, and the pattern
  stops at the comma of the grouping: 1020 milliseconds, rendered \<open>1,020ms\<close>, are
  read as 20 and coloured green, and 1000000 milliseconds, rendered \<open>1,000s\<close>, are
  read as 0 seconds and coloured green, where the first variant colours the raw delta
  red.
\<close>

lemma getColorForTime_alt_grouped:
  "fst (time 1020 (Some 0)) = ''1,020ms''
   \<and> getColorForTime_alt ''1,020ms'' = Green
   \<and> getColorForTime (snd (time 1020 (Some 0))) = Red
   \<and> fst (time 1000000 (Some 0)) = ''1,000s''
   \<and> getColorForTime_alt ''1,000s'' = Green
   \<and> getColorForTime (snd (time 1000000 (Some 0))) = Red"
  by code_simp

lemma response_time_alt_grouped:
  "(case map_of (RESPONSE_alt plain_host 1020) '':response-time'' of
      None \<Rightarrow> False
    | Some f \<Rightarrow>
        f get_users \<lparr>statusCode = 200, res_headers = [''x-start-time'' \<mapsto> HNum 0]\<rparr> None
          = Inr (Styled ''1,020ms'' (Some Green)))
   \<and> snd (RESPONSE_response_time 1020
             \<lparr>statusCode = 200, res_headers = [''x-start-time'' \<mapsto> HNum 0]\<rparr>) = Some Red"
  by code_simp

end
